theory Spec2Isabelle
  imports Main "HOL-Library.Sublist"
begin

section \<open>Strings and characters\<close>

text \<open>
  Python strings are modelled as \<open>string\<close> (lists of 8-bit characters); the
  development is about ASCII text, which is what file names, runtime states and
  messages of this program are made of. Character classes of the regular expressions
  are written as membership in the list of their members.
\<close>

definition newline :: char where
  "newline = CHR 0x0A"

definition backslash :: char where
  "backslash = CHR 0x5C"

definition ascii_upper_chars :: string where
  "ascii_upper_chars = ''ABCDEFGHIJKLMNOPQRSTUVWXYZ''"

definition ascii_lower_chars :: string where
  "ascii_lower_chars = ''abcdefghijklmnopqrstuvwxyz''"

definition digit_chars :: string where
  "digit_chars = ''0123456789''"

text \<open>\<^verbatim>\<open>str.lower()\<close> on ASCII: only \<open>A\<close>..\<open>Z\<close> change.\<close>

definition lower_char :: "char \<Rightarrow> char" where
  "lower_char c =
     (case map_of (zip ascii_upper_chars ascii_lower_chars) c of
        None \<Rightarrow> c
      | Some l \<Rightarrow> l)"

definition str_lower :: "string \<Rightarrow> string" where
  "str_lower s = map lower_char s"

section \<open>Decimal numerals\<close>

text \<open>\<^verbatim>\<open>str(n)\<close> for an integer, as the f-strings of the messages use it.\<close>

function str_nat :: "nat \<Rightarrow> string" where
  "str_nat n =
     (if n < 10 then [digit_chars ! n]
      else str_nat (n div 10) @ [digit_chars ! (n mod 10)])"
  by pat_completeness auto
termination
  by (relation "measure (\<lambda>n. n)") auto

declare str_nat.simps [simp del]

definition str_int :: "int \<Rightarrow> string" where
  "str_int i = (if i < 0 then CHR ''-'' # str_nat (nat (- i)) else str_nat (nat i))"

section \<open>Enumerations of \<^verbatim>\<open>app/models.py\<close>\<close>

datatype BotStatus = CREATED | RUNNING | STOPPED | CRASHED

datatype BotRuntime = PYTHON | NODE

datatype SourceType = ZIP | FILE

section \<open>Exceptions\<close>

text \<open>
  Every exception the modelled code raises or receives is a value. The four
  \<^verbatim>\<open>AppException\<close> subclasses of \<^verbatim>\<open>app/utils.py\<close> carry their
  \<^verbatim>\<open>detail\<close>; \<open>HTTPException\<close> is the web framework's exception with its
  status code and detail, as \<^verbatim>\<open>decode_token\<close> raises it; \<open>DockerNotFound\<close>
  and \<open>DockerAPIError\<close> are \<^verbatim>\<open>docker.errors.NotFound\<close> and
  \<^verbatim>\<open>docker.errors.APIError\<close> (the first is a subclass of the second) and carry
  their string form; \<open>BadZipFile\<close> is \<^verbatim>\<open>zipfile.BadZipFile\<close>; \<open>OSError\<close>
  is an error of the file system, of the subclass named; \<open>OtherError\<close> is any
  exception that is none of the others (for instance a transport error below the
  container client).
\<close>

datatype os_error =
  NotADirectoryError | IsADirectoryError | FileExistsError | FileNotFoundError

datatype exn =
    NotFoundException string
  | ForbiddenException string
  | BadRequestException string
  | ConflictException string
  | HTTPException nat string
  | RequestValidationError
  | RuntimeError string
  | ValueError string
  | DockerNotFound string
  | DockerAPIError string
  | DockerException string
  | WebSocketDisconnect
  | BadZipFile string
  | OSError os_error
  | OtherError string

text \<open>
  \<^verbatim>\<open>str(e)\<close>. For the HTTP exceptions this is the web framework's
  \<open>status_code: detail\<close>; for the others it is the message they carry. The
  message of a file-system error goes on to name the file; the model holds the part
  before the name.
\<close>

fun os_error_str :: "os_error \<Rightarrow> string" where
  "os_error_str NotADirectoryError = ''[Errno 20] Not a directory''"
| "os_error_str IsADirectoryError = ''[Errno 21] Is a directory''"
| "os_error_str FileExistsError = ''[Errno 17] File exists''"
| "os_error_str FileNotFoundError = ''[Errno 2] No such file or directory''"

fun exc_str :: "exn \<Rightarrow> string" where
  "exc_str (NotFoundException d) = ''404: '' @ d"
| "exc_str (ForbiddenException d) = ''403: '' @ d"
| "exc_str (BadRequestException d) = ''400: '' @ d"
| "exc_str (ConflictException d) = ''409: '' @ d"
| "exc_str (HTTPException code d) = str_nat code @ '': '' @ d"
| "exc_str RequestValidationError = ''validation error''"
| "exc_str (RuntimeError m) = m"
| "exc_str (ValueError m) = m"
| "exc_str (DockerNotFound m) = m"
| "exc_str (DockerAPIError m) = m"
| "exc_str (DockerException m) = m"
| "exc_str WebSocketDisconnect = []"
| "exc_str (BadZipFile m) = m"
| "exc_str (OSError k) = os_error_str k"
| "exc_str (OtherError m) = m"
section \<open>Helpers of \<^verbatim>\<open>app/utils.py\<close>\<close>

subsection \<open>Substring search\<close>

text \<open>\<^verbatim>\<open>re.search\<close> of a literal pattern: the pattern occurs somewhere in the
  string. \<^verbatim>\<open>str.endswith\<close> is the suffix test.\<close>

definition str_contains :: "string \<Rightarrow> string \<Rightarrow> bool" where
  "str_contains needle hay = list_ex (prefix needle) (suffixes hay)"

definition str_endswith :: "string \<Rightarrow> string \<Rightarrow> bool" where
  "str_endswith s suf = prefix (rev suf) (rev s)"

subsection \<open>\<^verbatim>\<open>validate_start_command\<close>\<close>

text \<open>
  The deny-list. All patterns but the last two are literals, searched without regard
  to case; \<^verbatim>\<open>curl.*\|\<close> and \<^verbatim>\<open>wget.*\|\<close> ask for the word, then any characters
  but a newline, then a pipe.
\<close>

definition dangerous_literals :: "string list" where
  "dangerous_literals =
     [''&&'', ''||'', '';'', ''|'', ''>'', ''<'', [CHR 0x60], ''$('', ''bash'', ''sh '',
      ''/bin/'', ''rm '', ''dd '', ''mkfs'']"

definition search_then_pipe :: "string \<Rightarrow> string \<Rightarrow> bool" where
  "search_then_pipe word s =
     list_ex (\<lambda>t. prefix word t \<and>
                  CHR ''|'' \<in> set (takeWhile (\<lambda>c. c \<noteq> newline) (drop (length word) t)))
       (suffixes s)"

definition validate_start_command :: "string \<Rightarrow> bool" where
  "validate_start_command command =
     (if command = [] \<or> length command > 500 then False
      else if list_ex (\<lambda>p. str_contains p (str_lower command)) dangerous_literals then False
      else if search_then_pipe ''curl'' (str_lower command) then False
      else if search_then_pipe ''wget'' (str_lower command) then False
      else True)"

subsection \<open>\<^verbatim>\<open>validate_bot_name\<close>\<close>

text \<open>The class \<^verbatim>\<open>[a-zA-Z0-9_-]\<close>.\<close>

definition name_char :: "char \<Rightarrow> bool" where
  "name_char c = (c \<in> set (ascii_lower_chars @ ascii_upper_chars @ digit_chars @ ''_-''))"

text \<open>
  Python's \<^verbatim>\<open>$\<close> (without \<^verbatim>\<open>re.MULTILINE\<close>) matches at the end of the
  string and also just before a newline that is the last character.
\<close>

definition dollar_at :: "string \<Rightarrow> nat \<Rightarrow> bool" where
  "dollar_at s i = (i = length s \<or> (Suc i = length s \<and> s ! i = newline))"

text \<open>
  \<^verbatim>\<open>re.match(r'^[a-zA-Z0-9_-]{3,50}$', name)\<close>: the match starts at position 0;
  the repetition takes some \<open>k\<close> characters of the class, 3 to 50 of them (the engine
  tries the longest first), and \<^verbatim>\<open>$\<close> must hold where it stops.
\<close>

definition match_bot_name_pattern :: "string \<Rightarrow> bool" where
  "match_bot_name_pattern s =
     list_ex (\<lambda>k. k \<le> length s \<and> list_all name_char (take k s) \<and> dollar_at s k)
       (rev [3..<51])"

definition validate_bot_name :: "string \<Rightarrow> bool" where
  "validate_bot_name name = match_bot_name_pattern name"

subsection \<open>\<^verbatim>\<open>sanitize_filename\<close>\<close>

text \<open>\<^verbatim>\<open>os.path.basename\<close> (POSIX): what follows the last slash.\<close>

definition basename :: "string \<Rightarrow> string" where
  "basename p = rev (takeWhile (\<lambda>c. c \<noteq> CHR ''/'') (rev p))"

text \<open>
  \<^verbatim>\<open>s.replace(old, new)\<close> for a non-empty \<open>old\<close>: the occurrences are found
  from the left and do not overlap; what a replacement brings together is not
  scanned again.
\<close>

function str_replace :: "string \<Rightarrow> string \<Rightarrow> string \<Rightarrow> string" where
  "str_replace old new [] = []"
| "str_replace old new (c # s) =
     (if old \<noteq> [] \<and> prefix old (c # s)
      then new @ str_replace old new (drop (length old) (c # s))
      else c # str_replace old new s)"
  by pat_completeness auto
termination
  by (relation "measure (\<lambda>(old, new, s). length s)") (auto simp: neq_Nil_conv)

text \<open>The class \<^verbatim>\<open>[a-zA-Z0-9._-]\<close>; \<^verbatim>\<open>re.sub\<close> puts an underscore for
  every character outside it.\<close>

definition safe_char :: "char \<Rightarrow> bool" where
  "safe_char c = (c \<in> set (ascii_lower_chars @ ascii_upper_chars @ digit_chars @ ''._-''))"

definition re_sub_unsafe :: "string \<Rightarrow> string" where
  "re_sub_unsafe s = map (\<lambda>c. if safe_char c then c else CHR ''_'') s"

text \<open>\<^verbatim>\<open>s.rfind(c)\<close>: the last index of \<open>c\<close>, or \<open>-1\<close>.\<close>

definition rfind :: "char \<Rightarrow> string \<Rightarrow> int" where
  "rfind c s =
     (if c \<in> set s then int (length s) - 1 - int (length (takeWhile (\<lambda>x. x \<noteq> c) (rev s)))
      else - 1)"

text \<open>
  \<^verbatim>\<open>os.path.splitext\<close> (POSIX): the extension starts at the last dot, provided a
  character that is not a dot stands between the last slash and that dot.
\<close>

definition splitext :: "string \<Rightarrow> string \<times> string" where
  "splitext p =
     (let sepIndex = rfind CHR ''/'' p; dotIndex = rfind CHR ''.'' p in
      if dotIndex > sepIndex \<and>
         list_ex (\<lambda>c. c \<noteq> CHR ''.'') (drop (nat (sepIndex + 1)) (take (nat dotIndex) p))
      then (take (nat dotIndex) p, drop (nat dotIndex) p)
      else (p, []))"

definition sanitize_filename :: "string \<Rightarrow> string" where
  "sanitize_filename filename =
     (let f1 = basename filename;
          f2 = str_replace [backslash] [] (str_replace ''/'' [] (str_replace ''..'' [] f1));
          f3 = re_sub_unsafe f2
      in if length f3 > 255
         then (case splitext f3 of (name, ext) \<Rightarrow> take 250 name @ ext)
         else f3)"

text \<open>The last step of \<^verbatim>\<open>sanitize_filename\<close> on its own: a name of more than 255
  characters is cut to the first 250 characters of its stem and its extension.\<close>

definition truncate_name :: "string \<Rightarrow> string" where
  "truncate_name f3 =
     (if length f3 > 255 then (case splitext f3 of (name, ext) \<Rightarrow> take 250 name @ ext) else f3)"

section \<open>Paths as \<^verbatim>\<open>pathlib.Path\<close> reads them (POSIX)\<close>

text \<open>\<^verbatim>\<open>s.split('/')\<close>.\<close>

fun split_slash :: "string \<Rightarrow> string list" where
  "split_slash [] = [[]]"
| "split_slash (c # s) =
     (if c = CHR ''/'' then [] # split_slash s
      else (case split_slash s of
              [] \<Rightarrow> [[c]]
            | w # ws \<Rightarrow> (c # w) # ws))"

text \<open>
  The components of a path below its root: empty components and single dots are
  dropped when the path is parsed; \<^verbatim>\<open>..\<close> is kept.
\<close>

definition path_parts :: "string \<Rightarrow> string list" where
  "path_parts p = filter (\<lambda>w. w \<noteq> [] \<and> w \<noteq> ''.'') (split_slash p)"

definition path_is_absolute :: "string \<Rightarrow> bool" where
  "path_is_absolute p = prefix ''/'' p"

definition path_name :: "string \<Rightarrow> string" where
  "path_name p = (if path_parts p = [] then [] else last (path_parts p))"

text \<open>\<^verbatim>\<open>Path.suffix\<close>: from the last dot of the final component, unless that
  dot is its first or its last character.\<close>

definition path_suffix :: "string \<Rightarrow> string" where
  "path_suffix p =
     (let n = path_name p; i = rfind CHR ''.'' n in
      if 0 < i \<and> i < int (length n) - 1 then drop (nat i) n else [])"

section \<open>The runtime registry of \<^verbatim>\<open>app/docker.py\<close>\<close>

record runtime_config =
  rc_image :: string
  rc_build_cmd :: string
  rc_default_start :: string
  rc_working_dir :: string
  allowed_extensions :: "string list"

fun get_runtime_config :: "BotRuntime \<Rightarrow> runtime_config" where
  "get_runtime_config PYTHON =
     \<lparr>rc_image = ''python:3.11-slim'',
      rc_build_cmd = ''pip install --no-cache-dir -r requirements.txt'',
      rc_default_start = ''python main.py'',
      rc_working_dir = ''/app'',
      allowed_extensions = [''.py'', ''.txt'', ''.json'', ''.yaml'', ''.yml'']\<rparr>"
| "get_runtime_config NODE =
     \<lparr>rc_image = ''node:20-alpine'',
      rc_build_cmd = ''npm install'',
      rc_default_start = ''node index.js'',
      rc_working_dir = ''/app'',
      allowed_extensions = [''.js'', ''.json'', ''.ts'']\<rparr>"

text \<open>
  A runtime tag as an f-string prints it. \<^verbatim>\<open>BotRuntime\<close> is an
  \<^verbatim>\<open>Enum\<close> that mixes in \<^verbatim>\<open>str\<close>; from Python 3.11 on, formatting such
  a member gives the name of the class and of the member, not its value.
\<close>

fun runtime_str :: "BotRuntime \<Rightarrow> string" where
  "runtime_str PYTHON = ''BotRuntime.PYTHON''"
| "runtime_str NODE = ''BotRuntime.NODE''"

section \<open>The data model of \<^verbatim>\<open>app/models.py\<close>\<close>

text \<open>
  The rows of the tables, with the columns the lifecycle code reads and writes (the
  creation time stamps are left out). \<open>container_id\<close> is the nullable handle of the
  sandbox. A plan belongs to a bot (\<open>plan_id\<close>); a user has no plan of their own.
\<close>

record Plan =
  p_id :: int
  plan_name :: string
  max_bots :: int
  cpu_limit :: string
  ram_limit :: string

record Bot =
  bot_id :: int
  user_id :: int
  plan_id :: int
  runtime :: BotRuntime
  bot_name :: string
  container_id :: "string option"
  status :: BotStatus
  start_cmd :: "string option"
  source_type :: "SourceType option"

record AuditLog =
  al_user_id :: int
  al_action :: string
  al_target_id :: string
  al_details :: "string option"

text \<open>The request and response bodies of \<^verbatim>\<open>app/bots.py\<close>. The response has no
  field for the handle.\<close>

record BotCreate =
  bc_name :: string
  bc_runtime :: BotRuntime
  bc_start_cmd :: "string option"
  bc_plan_id :: int

record BotResponse =
  r_id :: int
  r_name :: string
  r_runtime :: BotRuntime
  r_status :: BotStatus
  r_start_cmd :: "string option"
  r_source_type :: "SourceType option"

definition bot_response :: "Bot \<Rightarrow> BotResponse" where
  "bot_response b =
     \<lparr>r_id = bot_id b, r_name = bot_name b, r_runtime = runtime b, r_status = status b,
      r_start_cmd = start_cmd b, r_source_type = source_type b\<rparr>"

subsection \<open>The artifact directories\<close>

text \<open>
  A bot's directory is the tree below it: the list of its entries, each a regular
  file or a directory with entries of its own. The program creates no entry of any
  other kind, and the sandbox mounts the directory read-only. Where a name occurs
  twice in a list, the first entry is the one the name refers to.
\<close>

datatype node = RegularFile | Directory "(string \<times> node) list"

type_synonym dir = "(string \<times> node) list"

fun is_file :: "node \<Rightarrow> bool" where
  "is_file RegularFile = True"
| "is_file (Directory es) = False"

fun is_dir :: "node \<Rightarrow> bool" where
  "is_dir RegularFile = False"
| "is_dir (Directory es) = True"

text \<open>Writing an entry replaces the entry of the same name; unlinking removes it.\<close>

definition put_entry :: "string \<Rightarrow> node \<Rightarrow> dir \<Rightarrow> dir" where
  "put_entry n k d = filter (\<lambda>e. fst e \<noteq> n) d @ [(n, k)]"

definition write_file :: "string \<Rightarrow> dir \<Rightarrow> dir" where
  "write_file n d = put_entry n RegularFile d"

definition unlink :: "string \<Rightarrow> dir \<Rightarrow> dir" where
  "unlink n d = filter (\<lambda>e. fst e \<noteq> n) d"

text \<open>
  What is at a path below the directory, the path given by its components
  (\<^verbatim>\<open>os.path.exists\<close>, \<^verbatim>\<open>os.path.isdir\<close>): nothing is found below a regular
  file.
\<close>

fun path_node :: "string list \<Rightarrow> dir \<Rightarrow> node option" where
  "path_node [] d = Some (Directory d)"
| "path_node (n # ws) d =
     (case map_of d n of
        None \<Rightarrow> None
      | Some RegularFile \<Rightarrow> (if ws = [] then Some RegularFile else None)
      | Some (Directory es) \<Rightarrow> path_node ws es)"

definition path_exists :: "string list \<Rightarrow> dir \<Rightarrow> bool" where
  "path_exists p d = (path_node p d \<noteq> None)"

definition path_isdir :: "string list \<Rightarrow> dir \<Rightarrow> bool" where
  "path_isdir p d = (case path_node p d of Some (Directory es) \<Rightarrow> True | _ \<Rightarrow> False)"

text \<open>
  A system call that creates the entry \<open>n # ws\<close> walks down to the parent
  directory and acts there; it fails when a component on the way is missing or is a
  regular file.
\<close>

fun at_parent ::
  "(string \<Rightarrow> dir \<Rightarrow> os_error + dir) \<Rightarrow> string \<Rightarrow> string list \<Rightarrow> dir \<Rightarrow> os_error + dir"
where
  "at_parent f n [] d = f n d"
| "at_parent f n (m # ws) d =
     (case map_of d n of
        None \<Rightarrow> Inl FileNotFoundError
      | Some RegularFile \<Rightarrow> Inl NotADirectoryError
      | Some (Directory es) \<Rightarrow>
          (case at_parent f m ws es of
             Inl e \<Rightarrow> Inl e
           | Inr es' \<Rightarrow> Inr (put_entry n (Directory es') d)))"

text \<open>\<^verbatim>\<open>os.mkdir\<close>: the entry must not exist.\<close>

definition mkdir_entry :: "string \<Rightarrow> dir \<Rightarrow> os_error + dir" where
  "mkdir_entry n d =
     (case map_of d n of
        None \<Rightarrow> Inr (d @ [(n, Directory [])])
      | Some k \<Rightarrow> Inl FileExistsError)"

definition os_mkdir :: "string list \<Rightarrow> dir \<Rightarrow> os_error + dir" where
  "os_mkdir p d =
     (case p of
        [] \<Rightarrow> Inl FileExistsError
      | n # ws \<Rightarrow> at_parent mkdir_entry n ws d)"

text \<open>\<^verbatim>\<open>open(path, "wb")\<close>: a new regular file, or the old one emptied; a
  directory cannot be opened for writing.\<close>

definition open_entry :: "string \<Rightarrow> dir \<Rightarrow> os_error + dir" where
  "open_entry n d =
     (case map_of d n of
        None \<Rightarrow> Inr (d @ [(n, RegularFile)])
      | Some RegularFile \<Rightarrow> Inr d
      | Some (Directory es) \<Rightarrow> Inl IsADirectoryError)"

definition open_wb :: "string list \<Rightarrow> dir \<Rightarrow> os_error + dir" where
  "open_wb p d =
     (case p of
        [] \<Rightarrow> Inl IsADirectoryError
      | n # ws \<Rightarrow> at_parent open_entry n ws d)"

text \<open>
  \<^verbatim>\<open>os.makedirs\<close>: every missing directory on the way is created, then the
  last one, which must not exist.
\<close>

fun os_makedirs :: "string list \<Rightarrow> dir \<Rightarrow> os_error + dir" where
  "os_makedirs [] d = Inl FileExistsError"
| "os_makedirs [n] d = mkdir_entry n d"
| "os_makedirs (n # m # ws) d =
     (case map_of d n of
        None \<Rightarrow>
          (case os_makedirs (m # ws) [] of
             Inl e \<Rightarrow> Inl e
           | Inr es \<Rightarrow> Inr (d @ [(n, Directory es)]))
      | Some RegularFile \<Rightarrow> Inl NotADirectoryError
      | Some (Directory es) \<Rightarrow>
          (case os_makedirs (m # ws) es of
             Inl e \<Rightarrow> Inl e
           | Inr es' \<Rightarrow> Inr (put_entry n (Directory es') d)))"

subsection \<open>The state of the system\<close>

text \<open>
  The tables, the counter the database draws new bot ids from, the artifact
  directories (\<open>None\<close> for a directory that does not exist), and the flag of the
  driver's client singleton.
\<close>

record state =
  bots :: "Bot list"
  plans :: "Plan list"
  next_bot_id :: int
  audit_logs :: "AuditLog list"
  storage :: "int \<Rightarrow> dir option"
  docker_client :: bool

definition bot_dir :: "state \<Rightarrow> int \<Rightarrow> dir" where
  "bot_dir s bid = (case storage s bid of None \<Rightarrow> [] | Some d \<Rightarrow> d)"

text \<open>\<^verbatim>\<open>get_bot_storage_path\<close>: the directory is created when it is missing.\<close>

definition get_bot_storage_path :: "int \<Rightarrow> state \<Rightarrow> state" where
  "get_bot_storage_path bid s = s\<lparr>storage := (storage s)(bid := Some (bot_dir s bid))\<rparr>"

definition set_bot_dir :: "int \<Rightarrow> dir \<Rightarrow> state \<Rightarrow> state" where
  "set_bot_dir bid d s = s\<lparr>storage := (storage s)(bid := Some d)\<rparr>"

text \<open>The row of a bot is found and updated by its primary key.\<close>

definition find_bot :: "int \<Rightarrow> state \<Rightarrow> Bot option" where
  "find_bot bid s = find (\<lambda>b. bot_id b = bid) (bots s)"

definition find_plan :: "int \<Rightarrow> state \<Rightarrow> Plan option" where
  "find_plan pid s = find (\<lambda>p. p_id p = pid) (plans s)"

definition update_bot :: "int \<Rightarrow> (Bot \<Rightarrow> Bot) \<Rightarrow> state \<Rightarrow> state" where
  "update_bot bid f s = s\<lparr>bots := map (\<lambda>b. if bot_id b = bid then f b else b) (bots s)\<rparr>"

definition create_audit_log ::
  "int \<Rightarrow> string \<Rightarrow> string \<Rightarrow> string option \<Rightarrow> state \<Rightarrow> state" where
  "create_audit_log uid act target details s =
     s\<lparr>audit_logs := audit_logs s @
        [\<lparr>al_user_id = uid, al_action = act, al_target_id = target, al_details = details\<rparr>]\<rparr>"

text \<open>Python's truth value of an optional string: \<^verbatim>\<open>None\<close> and the empty string
  are false.\<close>

fun truthy :: "string option \<Rightarrow> bool" where
  "truthy None = False"
| "truthy (Some x) = (x \<noteq> [])"

section \<open>The sandbox driver \<^verbatim>\<open>app/docker.py\<close>\<close>

text \<open>
  The container runtime is the environment of the program. One value of
  \<open>environment\<close> fixes how it answers during one operation: whether a client can be
  constructed, what \<^verbatim>\<open>containers.get\<close> finds, and how each call ends. A call
  that raises gives \<open>Some e\<close> (or \<open>Inl e\<close>).

  A container carries what the program reads: its \<^verbatim>\<open>status\<close>, the
  \<^verbatim>\<open>State\<close> entry of its \<^verbatim>\<open>attrs\<close> (absent, or present with an optional
  \<^verbatim>\<open>ExitCode\<close>), the text of its last lines, and its follow stream: the chunks it
  produces, already decoded (decoding with replacement never fails), and the
  exception that ends the iteration, if one does. A stream that never ends is not
  represented.

  \<open>float_quota\<close> stands for \<^verbatim>\<open>int(float(cpu_limit) * 100000)\<close>, a floating-point
  computation that raises \<^verbatim>\<open>ValueError\<close> on a string that is no number.
\<close>

record container =
  c_status :: string
  c_state :: "int option option"
  c_start :: "exn option"
  c_stop :: "exn option"
  c_restart :: "exn option"
  c_remove :: "exn option"
  c_logs_tail :: "nat \<Rightarrow> exn + string"
  c_logs_follow :: "string list \<times> exn option"

record create_args =
  ca_image :: string
  ca_name :: string
  ca_command :: "string list"
  ca_volume :: "int \<times> string \<times> string"
  ca_working_dir :: string
  ca_privileged :: bool
  ca_cap_drop :: "string list"
  ca_mem_limit :: string
  ca_cpu_quota :: int
  ca_cpu_period :: int
  ca_network_mode :: string
  ca_security_opt :: "string list"

record environment =
  connect :: "exn option"
  containers_get :: "string \<Rightarrow> exn + container"
  images_get :: "string \<Rightarrow> exn option"
  images_pull :: "string \<Rightarrow> exn option"
  containers_create :: "create_args \<Rightarrow> exn + string"
  float_quota :: "string \<Rightarrow> exn + int"

text \<open>The exception classes the handlers select on: \<^verbatim>\<open>NotFound\<close> is a
  subclass of \<^verbatim>\<open>APIError\<close>, which is a subclass of \<^verbatim>\<open>DockerException\<close>.\<close>

fun is_NotFound :: "exn \<Rightarrow> bool" where
  "is_NotFound (DockerNotFound m) = True"
| "is_NotFound e = False"

fun is_APIError :: "exn \<Rightarrow> bool" where
  "is_APIError (DockerNotFound m) = True"
| "is_APIError (DockerAPIError m) = True"
| "is_APIError e = False"

fun is_DockerException :: "exn \<Rightarrow> bool" where
  "is_DockerException (DockerNotFound m) = True"
| "is_DockerException (DockerAPIError m) = True"
| "is_DockerException (DockerException m) = True"
| "is_DockerException e = False"

text \<open>
  \<^verbatim>\<open>get_docker_client\<close>: the module keeps one client for the process; the flag
  says whether it has been created. Creating it can fail, and the failure is raised
  as a \<^verbatim>\<open>RuntimeError\<close> whose text depends on the class of the cause.
\<close>

definition get_docker_client :: "environment \<Rightarrow> bool \<Rightarrow> (exn + unit) \<times> bool" where
  "get_docker_client env client =
     (if \<not> client then
        (case connect env of
           None \<Rightarrow> (Inr (), True)
         | Some e \<Rightarrow>
             (if is_DockerException e
              then (Inl (RuntimeError (''Docker service unavailable: '' @ exc_str e)), False)
              else (Inl (RuntimeError (''Failed to initialize Docker client: '' @ exc_str e)),
                    False)))
      else (Inr (), True))"

text \<open>The same, on the state of the system.\<close>

definition with_client :: "environment \<Rightarrow> state \<Rightarrow> (exn + unit) \<times> state" where
  "with_client env s =
     (case get_docker_client env (docker_client s) of
        (r, c) \<Rightarrow> (r, s\<lparr>docker_client := c\<rparr>))"

subsection \<open>\<^verbatim>\<open>create_container\<close>\<close>

definition container_args ::
  "int \<Rightarrow> runtime_config \<Rightarrow> string \<Rightarrow> string \<Rightarrow> int \<Rightarrow> create_args" where
  "container_args bid cfg cmd ram quota =
     \<lparr>ca_image = rc_image cfg,
      ca_name = ''bot-'' @ str_int bid,
      ca_command = [''sh'', ''-c'', rc_build_cmd cfg @ '' 2>&1 || true && '' @ cmd],
      ca_volume = (bid, rc_working_dir cfg, ''ro''),
      ca_working_dir = rc_working_dir cfg,
      ca_privileged = False,
      ca_cap_drop = [''ALL''],
      ca_mem_limit = ram,
      ca_cpu_quota = quota,
      ca_cpu_period = 100000,
      ca_network_mode = ''bridge'',
      ca_security_opt = [''no-new-privileges'']\<rparr>"

text \<open>The image is pulled when looking it up raises \<^verbatim>\<open>NotFound\<close>.\<close>

definition ensure_image :: "environment \<Rightarrow> string \<Rightarrow> exn option" where
  "ensure_image env img =
     (case images_get env img of
        None \<Rightarrow> None
      | Some e \<Rightarrow> (if is_NotFound e then images_pull env img else Some e))"

text \<open>The handler of \<^verbatim>\<open>create_container\<close>: an API error becomes a
  \<^verbatim>\<open>BadRequestException\<close>; anything else passes.\<close>

definition create_failed :: "exn \<Rightarrow> exn" where
  "create_failed e =
     (if is_APIError e then BadRequestException (''Failed to create container: '' @ exc_str e)
      else e)"

definition create_container ::
  "environment \<Rightarrow> int \<Rightarrow> BotRuntime \<Rightarrow> string option \<Rightarrow> string \<Rightarrow> string \<Rightarrow> state
   \<Rightarrow> (exn + string) \<times> state" where
  "create_container env bid rt cmd cpu ram s =
     (case with_client env s of
        (Inl e, s1) \<Rightarrow> (Inl e, s1)
      | (Inr u, s1) \<Rightarrow>
          (let cfg = get_runtime_config rt;
               s2 = get_bot_storage_path bid s1;
               cmd' = (if truthy cmd then the cmd else rc_default_start cfg)
           in case float_quota env cpu of
                Inl e \<Rightarrow> (Inl e, s2)
              | Inr quota \<Rightarrow>
                  (case ensure_image env (rc_image cfg) of
                     Some e \<Rightarrow> (Inl (create_failed e), s2)
                   | None \<Rightarrow>
                       (case containers_create env (container_args bid cfg cmd' ram quota) of
                          Inl e \<Rightarrow> (Inl (create_failed e), s2)
                        | Inr cid \<Rightarrow> (Inr cid, s2)))))"

subsection \<open>Start, stop, restart and remove\<close>

text \<open>
  The four calls look the container up and act on it. \<^verbatim>\<open>NotFound\<close> and
  \<^verbatim>\<open>APIError\<close> are logged and turned into the boolean result; the error's text
  is not returned. Any other exception passes.
\<close>

definition start_container :: "environment \<Rightarrow> string \<Rightarrow> state \<Rightarrow> (exn + bool) \<times> state" where
  "start_container env cid s =
     (case with_client env s of
        (Inl e, s1) \<Rightarrow> (Inl e, s1)
      | (Inr u, s1) \<Rightarrow>
          (case (case containers_get env cid of
                   Inl e \<Rightarrow> Some e
                 | Inr c \<Rightarrow> c_start c) of
             None \<Rightarrow> (Inr True, s1)
           | Some e \<Rightarrow>
               (if is_NotFound e then (Inr False, s1)
                else if is_APIError e then (Inr False, s1)
                else (Inl e, s1))))"

definition stop_container :: "environment \<Rightarrow> string \<Rightarrow> state \<Rightarrow> (exn + bool) \<times> state" where
  "stop_container env cid s =
     (case with_client env s of
        (Inl e, s1) \<Rightarrow> (Inl e, s1)
      | (Inr u, s1) \<Rightarrow>
          (case (case containers_get env cid of
                   Inl e \<Rightarrow> Some e
                 | Inr c \<Rightarrow> c_stop c) of
             None \<Rightarrow> (Inr True, s1)
           | Some e \<Rightarrow>
               (if is_NotFound e then (Inr False, s1)
                else if is_APIError e then (Inr False, s1)
                else (Inl e, s1))))"

definition restart_container :: "environment \<Rightarrow> string \<Rightarrow> state \<Rightarrow> (exn + bool) \<times> state" where
  "restart_container env cid s =
     (case with_client env s of
        (Inl e, s1) \<Rightarrow> (Inl e, s1)
      | (Inr u, s1) \<Rightarrow>
          (case (case containers_get env cid of
                   Inl e \<Rightarrow> Some e
                 | Inr c \<Rightarrow> c_restart c) of
             None \<Rightarrow> (Inr True, s1)
           | Some e \<Rightarrow>
               (if is_NotFound e then (Inr False, s1)
                else if is_APIError e then (Inr False, s1)
                else (Inl e, s1))))"

text \<open>Removing a container that is already gone counts as done.\<close>

definition remove_container :: "environment \<Rightarrow> string \<Rightarrow> state \<Rightarrow> (exn + bool) \<times> state" where
  "remove_container env cid s =
     (case with_client env s of
        (Inl e, s1) \<Rightarrow> (Inl e, s1)
      | (Inr u, s1) \<Rightarrow>
          (case (case containers_get env cid of
                   Inl e \<Rightarrow> Some e
                 | Inr c \<Rightarrow> c_remove c) of
             None \<Rightarrow> (Inr True, s1)
           | Some e \<Rightarrow>
               (if is_NotFound e then (Inr True, s1)
                else if is_APIError e then (Inr False, s1)
                else (Inl e, s1))))"

subsection \<open>\<^verbatim>\<open>get_container_status\<close>\<close>

text \<open>
  \<^verbatim>\<open>container.attrs.get("State", {}).get("ExitCode", 0)\<close>: a missing
  \<^verbatim>\<open>State\<close> or a missing \<^verbatim>\<open>ExitCode\<close> reads as 0.
\<close>

definition exit_code :: "container \<Rightarrow> int" where
  "exit_code c =
     (case c_state c of
        None \<Rightarrow> 0
      | Some None \<Rightarrow> 0
      | Some (Some n) \<Rightarrow> n)"

definition get_container_status ::
  "environment \<Rightarrow> string \<Rightarrow> state \<Rightarrow> (exn + BotStatus) \<times> state" where
  "get_container_status env cid s =
     (case with_client env s of
        (Inl e, s1) \<Rightarrow> (Inl e, s1)
      | (Inr u, s1) \<Rightarrow>
          (case containers_get env cid of
             Inr c \<Rightarrow>
               (let docker_status = str_lower (c_status c) in
                if docker_status = ''running'' then (Inr RUNNING, s1)
                else if docker_status \<in> set [''exited'', ''dead''] then
                  (if exit_code c \<noteq> 0 then (Inr CRASHED, s1)
                   else (Inr STOPPED, s1))
                else if docker_status = ''created'' then (Inr CREATED, s1)
                else (Inr STOPPED, s1))
           | Inl e \<Rightarrow>
               (if is_NotFound e then (Inr STOPPED, s1)
                else if is_APIError e then (Inr STOPPED, s1)
                else (Inl e, s1))))"

subsection \<open>Logs\<close>

text \<open>
  \<^verbatim>\<open>stream_logs\<close> is a generator. Its run is the list of the lines it yields
  and the exception it raises to its consumer in the end, if it raises one. The
  client is obtained outside the \<^verbatim>\<open>try\<close>; inside, \<^verbatim>\<open>NotFound\<close> and
  \<^verbatim>\<open>APIError\<close> end the stream with one more line.
\<close>

definition stream_failed :: "string list \<Rightarrow> exn \<Rightarrow> string list \<times> exn option" where
  "stream_failed ls e =
     (if is_NotFound e then (ls @ [''Container not found''], None)
      else if is_APIError e then (ls @ [''Error streaming logs: '' @ exc_str e], None)
      else (ls, Some e))"

definition stream_logs ::
  "environment \<Rightarrow> string \<Rightarrow> state \<Rightarrow> (string list \<times> exn option) \<times> state" where
  "stream_logs env cid s =
     (case with_client env s of
        (Inl e, s1) \<Rightarrow> (([], Some e), s1)
      | (Inr u, s1) \<Rightarrow>
          (case containers_get env cid of
             Inl e \<Rightarrow> (stream_failed [] e, s1)
           | Inr c \<Rightarrow>
               (case c_logs_follow c of
                  (ls, None) \<Rightarrow> ((ls, None), s1)
                | (ls, Some e) \<Rightarrow> (stream_failed ls e, s1))))"

definition get_recent_logs ::
  "environment \<Rightarrow> string \<Rightarrow> nat \<Rightarrow> state \<Rightarrow> (exn + string) \<times> state" where
  "get_recent_logs env cid tail s =
     (case with_client env s of
        (Inl e, s1) \<Rightarrow> (Inl e, s1)
      | (Inr u, s1) \<Rightarrow>
          (case (case containers_get env cid of
                   Inl e \<Rightarrow> Inl e
                 | Inr c \<Rightarrow> c_logs_tail c tail) of
             Inr logs \<Rightarrow> (Inr logs, s1)
           | Inl e \<Rightarrow>
               (if is_NotFound e then (Inr ''Container not found'', s1)
                else if is_APIError e then (Inr (''Error retrieving logs: '' @ exc_str e), s1)
                else (Inl e, s1))))"

section \<open>The lifecycle manager \<^verbatim>\<open>app/bots.py\<close>\<close>

text \<open>
  Each endpoint is a function of the acting user (the authentication layer in
  front has resolved the caller), the state, and the environment's answers; it returns
  the response or the exception raised, and the state it leaves. Rate limiting, the
  client's address in the audit entries and failures of the database itself are left
  out.
\<close>

definition verify_bot_ownership :: "int \<Rightarrow> int \<Rightarrow> state \<Rightarrow> exn + Bot" where
  "verify_bot_ownership bid uid s =
     (case find_bot bid s of
        None \<Rightarrow> Inl (NotFoundException ''Bot not found'')
      | Some bt \<Rightarrow>
          (if user_id bt \<noteq> uid
           then Inl (ForbiddenException (''You don'' @ [CHR 0x27] @ ''t have access to this bot''))
           else Inr bt))"

subsection \<open>\<^verbatim>\<open>create_bot\<close>\<close>

definition user_bot_count :: "int \<Rightarrow> state \<Rightarrow> int" where
  "user_bot_count uid s = int (length (filter (\<lambda>b. user_id b = uid) (bots s)))"

definition create_bot :: "BotCreate \<Rightarrow> int \<Rightarrow> state \<Rightarrow> (exn + BotResponse) \<times> state" where
  "create_bot bot_data uid s =
     (if length (bc_name bot_data) < 3 \<or> length (bc_name bot_data) > 50
      then (Inl RequestValidationError, s)
      else if \<not> validate_bot_name (bc_name bot_data)
      then (Inl (BadRequestException
        ''Invalid bot name. Use 3-50 alphanumeric characters, hyphens, or underscores.''), s)
      else if truthy (bc_start_cmd bot_data)
              \<and> \<not> validate_start_command (the (bc_start_cmd bot_data))
      then (Inl (BadRequestException
        ''Invalid start command. Command contains dangerous patterns.''), s)
      else
        (case find_plan (bc_plan_id bot_data) s of
           None \<Rightarrow> (Inl (NotFoundException ''Plan not found''), s)
         | Some plan \<Rightarrow>
             (if user_bot_count uid s \<ge> max_bots plan
              then (Inl (ConflictException (''Bot limit reached. Your plan allows maximum ''
                      @ str_int (max_bots plan) @ '' bots.'')), s)
              else if find (\<lambda>b. user_id b = uid \<and> bot_name b = bc_name bot_data) (bots s)
                      \<noteq> None
              then (Inl (ConflictException ''A bot with this name already exists''), s)
              else
                (let bt = \<lparr>bot_id = next_bot_id s, user_id = uid,
                            plan_id = bc_plan_id bot_data, runtime = bc_runtime bot_data,
                            bot_name = bc_name bot_data, container_id = None,
                            status = CREATED, start_cmd = bc_start_cmd bot_data,
                            source_type = None\<rparr>;
                     s1 = s\<lparr>bots := bots s @ [bt], next_bot_id := next_bot_id s + 1\<rparr>;
                     s2 = get_bot_storage_path (bot_id bt) s1;
                     s3 = create_audit_log uid ''bot_create'' (str_int (bot_id bt)) None s2
                 in (Inr (bot_response bt), s3)))))"

subsection \<open>\<^verbatim>\<open>upload_bot_files\<close>\<close>

text \<open>
  An upload is the client's file name, if it sent one, and the payload. Of the
  payload the code reads whether it is a zip archive and, if so, its members in the
  order of \<^verbatim>\<open>namelist()\<close>; \<open>None\<close> is a payload \<^verbatim>\<open>zipfile.ZipFile\<close>
  refuses. A member is its name and what reading its data does when it is
  extracted: the data is read, or opening the member raises, or copying the data
  raises after the target file has been opened.
\<close>

datatype read_outcome = ReadOk | OpenRaises exn | CopyRaises exn

record upload =
  up_filename :: "string option"
  up_members :: "(string \<times> read_outcome) list option"

text \<open>The directory is cleared first: every file and every directory goes, except
  an entry called \<^verbatim>\<open>.gitkeep\<close>.\<close>

definition clean_dir :: "dir \<Rightarrow> dir" where
  "clean_dir d =
     filter (\<lambda>(n, k). \<not> (n \<noteq> ''.gitkeep'' \<and> (is_file k \<or> is_dir k))) d"

text \<open>
  The loop over \<^verbatim>\<open>namelist()\<close>: the first member that fails a check raises; a
  member that ends in a slash is a directory and has no extension to check.
\<close>

fun check_members :: "BotRuntime \<Rightarrow> string list \<Rightarrow> exn option" where
  "check_members rt [] = None"
| "check_members rt (member # ms) =
     (if path_is_absolute member \<or> ''..'' \<in> set (path_parts member)
      then Some (BadRequestException ''Invalid file path in zip'')
      else if str_endswith member ''/'' then check_members rt ms
      else (let ext = path_suffix member in
            if ext \<noteq> [] \<and> ext \<notin> set (allowed_extensions (get_runtime_config rt))
            then Some (BadRequestException
                   (''File type '' @ ext @ '' not allowed for '' @ runtime_str rt @ '' runtime''))
            else check_members rt ms))"

text \<open>
  The two checks in the words of the specification, for one member: its path is
  absolute or has a \<^verbatim>\<open>..\<close> component, or it is no directory and has an
  extension that is not in the allow-list of the runtime.
\<close>

definition bad_member :: "BotRuntime \<Rightarrow> string \<Rightarrow> bool" where
  "bad_member rt member =
     (path_is_absolute member \<or> ''..'' \<in> set (path_parts member)
      \<or> (\<not> str_endswith member ''/'' \<and> path_suffix member \<noteq> []
          \<and> path_suffix member \<notin> set (allowed_extensions (get_runtime_config rt))))"

text \<open>
  \<^verbatim>\<open>ZipFile.extractall\<close> extracts the members in order, each as the library's
  \<^verbatim>\<open>_extract_member\<close> does: the target is the directory joined with the
  components of the name that are not empty, \<^verbatim>\<open>.\<close> or \<^verbatim>\<open>..\<close>; the
  directories above the target are created when they do not exist; a member whose
  name ends in a slash is a directory, made unless it is there; any other member is
  opened, then the target is opened for writing, then the data is copied. The first
  exception ends the extraction and leaves what has been extracted so far.
\<close>

definition arcname :: "string \<Rightarrow> string list" where
  "arcname member = filter (\<lambda>x. x \<notin> set [[], ''.'', ''..'']) (split_slash member)"

definition extract_member :: "string \<times> read_outcome \<Rightarrow> dir \<Rightarrow> exn option \<times> dir" where
  "extract_member member d =
     (let targetpath = arcname (fst member);
          upperdirs = butlast targetpath
      in case (if \<not> path_exists upperdirs d then os_makedirs upperdirs d else Inr d) of
           Inl e \<Rightarrow> (Some (OSError e), d)
         | Inr d1 \<Rightarrow>
             (if str_endswith (fst member) ''/'' then
                (if \<not> path_isdir targetpath d1 then
                   (case os_mkdir targetpath d1 of
                      Inl e \<Rightarrow> (Some (OSError e), d1)
                    | Inr d2 \<Rightarrow> (None, d2))
                 else (None, d1))
              else
                (case snd member of
                   OpenRaises e \<Rightarrow> (Some e, d1)
                 | outcome \<Rightarrow>
                     (case open_wb targetpath d1 of
                        Inl e \<Rightarrow> (Some (OSError e), d1)
                      | Inr d2 \<Rightarrow>
                          (case outcome of
                             CopyRaises e \<Rightarrow> (Some e, d2)
                           | _ \<Rightarrow> (None, d2))))))"

fun extractall :: "(string \<times> read_outcome) list \<Rightarrow> dir \<Rightarrow> exn option \<times> dir" where
  "extractall [] d = (None, d)"
| "extractall (member # ms) d =
     (case extract_member member d of
        (Some e, d1) \<Rightarrow> (Some e, d1)
      | (None, d1) \<Rightarrow> extractall ms d1)"

text \<open>
  The endpoint. The archive is saved under its sanitized name before it is opened;
  after the clearing step every entry left is called \<^verbatim>\<open>.gitkeep\<close>, which is
  neither the name of an archive nor a name with an allowed extension, so both
  writes create their file. Of the exceptions of the \<^verbatim>\<open>try\<close> only
  \<^verbatim>\<open>BadZipFile\<close> is caught; any other leaves the endpoint as it is. The archive
  is unlinked, the source type set and the audit entry written only when nothing
  was raised.
\<close>

fun is_BadZipFile :: "exn \<Rightarrow> bool" where
  "is_BadZipFile (BadZipFile m) = True"
| "is_BadZipFile e = False"

definition upload_bot_files ::
  "int \<Rightarrow> upload \<Rightarrow> int \<Rightarrow> state \<Rightarrow> (exn + string) \<times> state" where
  "upload_bot_files bid file uid s =
     (case verify_bot_ownership bid uid s of
        Inl e \<Rightarrow> (Inl e, s)
      | Inr bt \<Rightarrow>
          (let s1 = get_bot_storage_path bid s;
               s2 = set_bot_dir bid (clean_dir (bot_dir s1 bid)) s1;
               filename = sanitize_filename
                 (if truthy (up_filename file) then the (up_filename file) else ''upload'')
           in if str_endswith filename ''.zip'' then
                (let s3 = set_bot_dir bid (write_file filename (bot_dir s2 bid)) s2 in
                 case up_members file of
                   None \<Rightarrow> (Inl (BadRequestException ''Invalid zip file''), s3)
                 | Some ms \<Rightarrow>
                     (case check_members (runtime bt) (map fst ms) of
                        Some e \<Rightarrow> (Inl e, s3)
                      | None \<Rightarrow>
                          (case extractall ms (bot_dir s3 bid) of
                             (Some e, d) \<Rightarrow>
                               (Inl (if is_BadZipFile e
                                     then BadRequestException ''Invalid zip file'' else e),
                                set_bot_dir bid d s3)
                           | (None, d) \<Rightarrow>
                               (let s4 = set_bot_dir bid d s3;
                                    s5 = set_bot_dir bid (unlink filename (bot_dir s4 bid)) s4;
                                    s6 = update_bot bid (\<lambda>b. b\<lparr>source_type := Some ZIP\<rparr>) s5;
                                    s7 = create_audit_log uid ''bot_upload'' (str_int bid)
                                           (Some (''Uploaded '' @ filename)) s6
                                in (Inr filename, s7)))))
              else
                (let ext = path_suffix filename in
                 if ext \<notin> set (allowed_extensions (get_runtime_config (runtime bt)))
                 then (Inl (BadRequestException
                        (''File type '' @ ext @ '' not allowed for ''
                         @ runtime_str (runtime bt) @ '' runtime'')), s2)
                 else
                   (let s3 = set_bot_dir bid (write_file filename (bot_dir s2 bid)) s2;
                        s4 = update_bot bid (\<lambda>b. b\<lparr>source_type := Some FILE\<rparr>) s3;
                        s5 = create_audit_log uid ''bot_upload'' (str_int bid)
                               (Some (''Uploaded '' @ filename)) s4
                    in (Inr filename, s5)))))"
subsection \<open>\<^verbatim>\<open>start_bot\<close>\<close>

text \<open>
  The directory counts as non-empty when it has any entry at all. Everything from
  the creation of the container to the audit entry runs inside one \<^verbatim>\<open>try\<close>
  whose handler catches every exception: it marks the bot CRASHED, commits, and
  raises a \<^verbatim>\<open>BadRequestException\<close> built from the exception's string.
\<close>

definition start_failed :: "int \<Rightarrow> exn \<Rightarrow> state \<Rightarrow> (exn + BotResponse) \<times> state" where
  "start_failed bid e s =
     (Inl (BadRequestException (''Failed to start bot: '' @ exc_str e)),
      update_bot bid (\<lambda>b. b\<lparr>status := CRASHED\<rparr>) s)"

text \<open>The first step of the \<^verbatim>\<open>try\<close>: a bot without a handle gets a container,
  and the handle is committed at once.\<close>

definition ensure_container ::
  "environment \<Rightarrow> Bot \<Rightarrow> Plan \<Rightarrow> state \<Rightarrow> (exn + string option) \<times> state" where
  "ensure_container env bt plan s =
     (if \<not> truthy (container_id bt) then
        (case create_container env (bot_id bt) (runtime bt) (start_cmd bt)
                (cpu_limit plan) (ram_limit plan) s of
           (Inl e, s1) \<Rightarrow> (Inl e, s1)
         | (Inr cid, s1) \<Rightarrow>
             (Inr (Some cid), update_bot (bot_id bt) (\<lambda>b. b\<lparr>container_id := Some cid\<rparr>) s1))
      else (Inr (container_id bt), s))"

definition start_bot ::
  "environment \<Rightarrow> int \<Rightarrow> int \<Rightarrow> state \<Rightarrow> (exn + BotResponse) \<times> state" where
  "start_bot env bid uid s =
     (case verify_bot_ownership bid uid s of
        Inl e \<Rightarrow> (Inl e, s)
      | Inr bt \<Rightarrow>
          (case find_plan (plan_id bt) s of
             None \<Rightarrow> (Inl (NotFoundException ''Plan not found''), s)
           | Some plan \<Rightarrow>
               (let s1 = get_bot_storage_path bid s in
                if bot_dir s1 bid = []
                then (Inl (BadRequestException
                       ''No files uploaded. Please upload bot code first.''), s1)
                else
                  (case ensure_container env bt plan s1 of
                     (Inl e, s2) \<Rightarrow> start_failed bid e s2
                   | (Inr handle, s2) \<Rightarrow>
                       (case start_container env (the handle) s2 of
                          (Inl e, s3) \<Rightarrow> start_failed bid e s3
                        | (Inr success, s3) \<Rightarrow>
                            (if \<not> success
                             then start_failed bid
                                    (BadRequestException ''Failed to start container'') s3
                             else
                               (let s4 = update_bot bid (\<lambda>b. b\<lparr>status := RUNNING\<rparr>) s3;
                                    s5 = create_audit_log uid ''bot_start'' (str_int bid) None s4
                                in (Inr (bot_response
                                      (bt\<lparr>container_id := handle, status := RUNNING\<rparr>)),
                                    s5))))))))"

subsection \<open>\<^verbatim>\<open>stop_bot\<close>, \<^verbatim>\<open>restart_bot\<close>, \<^verbatim>\<open>delete_bot\<close>\<close>

definition stop_bot ::
  "environment \<Rightarrow> int \<Rightarrow> int \<Rightarrow> state \<Rightarrow> (exn + BotResponse) \<times> state" where
  "stop_bot env bid uid s =
     (case verify_bot_ownership bid uid s of
        Inl e \<Rightarrow> (Inl e, s)
      | Inr bt \<Rightarrow>
          (if \<not> truthy (container_id bt)
           then (Inl (BadRequestException ''Bot has no container''), s)
           else
             (case stop_container env (the (container_id bt)) s of
                (Inl e, s1) \<Rightarrow> (Inl e, s1)
              | (Inr success, s1) \<Rightarrow>
                  (if \<not> success
                   then (Inl (BadRequestException ''Failed to stop container''), s1)
                   else
                     (let s2 = update_bot bid (\<lambda>b. b\<lparr>status := STOPPED\<rparr>) s1;
                          s3 = create_audit_log uid ''bot_stop'' (str_int bid) None s2
                      in (Inr (bot_response (bt\<lparr>status := STOPPED\<rparr>)), s3))))))"

definition restart_bot ::
  "environment \<Rightarrow> int \<Rightarrow> int \<Rightarrow> state \<Rightarrow> (exn + BotResponse) \<times> state" where
  "restart_bot env bid uid s =
     (case verify_bot_ownership bid uid s of
        Inl e \<Rightarrow> (Inl e, s)
      | Inr bt \<Rightarrow>
          (if \<not> truthy (container_id bt)
           then (Inl (BadRequestException ''Bot has no container''), s)
           else
             (case restart_container env (the (container_id bt)) s of
                (Inl e, s1) \<Rightarrow> (Inl e, s1)
              | (Inr success, s1) \<Rightarrow>
                  (if \<not> success
                   then (Inl (BadRequestException ''Failed to restart container''), s1)
                   else
                     (let s2 = update_bot bid (\<lambda>b. b\<lparr>status := RUNNING\<rparr>) s1;
                          s3 = create_audit_log uid ''bot_restart'' (str_int bid) None s2
                      in (Inr (bot_response (bt\<lparr>status := RUNNING\<rparr>)), s3))))))"

text \<open>Deleting removes the container (its result is not looked at), the directory
  and the row.\<close>

definition delete_bot :: "environment \<Rightarrow> int \<Rightarrow> int \<Rightarrow> state \<Rightarrow> (exn + unit) \<times> state" where
  "delete_bot env bid uid s =
     (case verify_bot_ownership bid uid s of
        Inl e \<Rightarrow> (Inl e, s)
      | Inr bt \<Rightarrow>
          (case (if truthy (container_id bt)
                 then remove_container env (the (container_id bt)) s
                 else (Inr True, s)) of
             (Inl e, s1) \<Rightarrow> (Inl e, s1)
           | (Inr removed, s1) \<Rightarrow>
               (let s2 = get_bot_storage_path bid s1;
                    s3 = s2\<lparr>storage := (storage s2)(bid := None)\<rparr>;
                    s4 = s3\<lparr>bots := filter (\<lambda>b. bot_id b \<noteq> bid) (bots s3)\<rparr>;
                    s5 = create_audit_log uid ''bot_delete'' (str_int bid) None s4
                in (Inr (), s5))))"

text \<open>\<^verbatim>\<open>list_bots\<close>: the caller's bots.\<close>

definition list_bots :: "int \<Rightarrow> state \<Rightarrow> BotResponse list" where
  "list_bots uid s = map bot_response (filter (\<lambda>b. user_id b = uid) (bots s))"

section \<open>The log broker \<^verbatim>\<open>app/sockets.py\<close>\<close>

text \<open>
  What the subscriber sees of a session is the sequence of frames the server sends:
  text frames and the close frame with its code. The socket is the other part of the
  environment: \<open>send_result n\<close> says how the \<open>n\<close>-th call of \<^verbatim>\<open>send_text\<close> of
  the session ends (\<open>None\<close>: the frame is sent), \<open>close_result\<close> how
  \<^verbatim>\<open>close\<close> ends. The pacing delay between frames has no place here.
\<close>

datatype ws_event = SentText string | Closed nat

record socket =
  send_result :: "nat \<Rightarrow> exn option"
  close_result :: "exn option"

type_synonym ws_state = "ws_event list \<times> nat"

definition send_text :: "socket \<Rightarrow> string \<Rightarrow> ws_state \<Rightarrow> exn option \<times> ws_state" where
  "send_text sock txt w =
     (case w of (evs, n) \<Rightarrow>
        (case send_result sock n of
           None \<Rightarrow> (None, (evs @ [SentText txt], Suc n))
         | Some e \<Rightarrow> (Some e, (evs, Suc n))))"

definition close :: "socket \<Rightarrow> nat \<Rightarrow> ws_state \<Rightarrow> exn option \<times> ws_state" where
  "close sock code w =
     (case w of (evs, n) \<Rightarrow>
        (case close_result sock of
           None \<Rightarrow> (None, (evs @ [Closed code], n))
         | Some e \<Rightarrow> (Some e, (evs, n))))"

definition send_then_close ::
  "socket \<Rightarrow> string \<Rightarrow> nat \<Rightarrow> ws_state \<Rightarrow> exn option \<times> ws_state" where
  "send_then_close sock txt code w =
     (case send_text sock txt w of
        (Some e, w1) \<Rightarrow> (Some e, w1)
      | (None, w1) \<Rightarrow> close sock code w1)"

text \<open>
  The \<^verbatim>\<open>for\<close> loop of \<^verbatim>\<open>stream_to_websocket\<close> over a run of the generator:
  each line is sent as a text frame; the loop ends when the generator ends, when it
  raises, or when a send raises.
\<close>

fun pump :: "socket \<Rightarrow> string list \<Rightarrow> exn option \<Rightarrow> ws_state \<Rightarrow> exn option \<times> ws_state" where
  "pump sock [] fin w = (fin, w)"
| "pump sock (log_line # ls) fin w =
     (case send_text sock log_line w of
        (Some e, w1) \<Rightarrow> (Some e, w1)
      | (None, w1) \<Rightarrow> pump sock ls fin w1)"

text \<open>The handler inside \<^verbatim>\<open>stream_to_websocket\<close> catches every exception of
  the loop, sends one frame that reports it, and returns.\<close>

definition stream_to_websocket ::
  "socket \<Rightarrow> string list \<times> exn option \<Rightarrow> ws_state \<Rightarrow> exn option \<times> ws_state" where
  "stream_to_websocket sock run w =
     (case pump sock (fst run) (snd run) w of
        (None, w1) \<Rightarrow> (None, w1)
      | (Some e, w1) \<Rightarrow> send_text sock (''Error: '' @ exc_str e) w1)"

text \<open>The frame that carries the tail of the log.\<close>

definition recent_logs_frame :: "string \<Rightarrow> string" where
  "recent_logs_frame recent_logs =
     ''=== Recent Logs ==='' @ [newline] @ recent_logs @ [newline]
     @ ''=== Live Stream ==='' @ [newline]"

subsection \<open>Authentication of a session\<close>

text \<open>
  The token library and the table of users are the last part of the environment.
  \<open>jwt_decode\<close> is \<^verbatim>\<open>jwt.decode\<close> with the application's key: \<open>None\<close> when
  it raises a \<^verbatim>\<open>JWTError\<close>, otherwise the payload, of which the code reads the
  claim \<^verbatim>\<open>sub\<close>: it is absent, or \<^verbatim>\<open>int()\<close> turns it into a number, or
  \<^verbatim>\<open>int()\<close> raises a \<^verbatim>\<open>ValueError\<close> or \<^verbatim>\<open>TypeError\<close> on it.
  \<open>user_ids\<close> are the keys of the rows of the table of users, which no operation
  modelled here writes.
\<close>

datatype sub_claim = NoSub | SubInt int | SubNotInt

record accounts =
  jwt_decode :: "string \<Rightarrow> sub_claim option"
  user_ids :: "int list"

text \<open>\<^verbatim>\<open>decode_token\<close> of \<^verbatim>\<open>app/auth.py\<close> turns the library's error into
  an \<^verbatim>\<open>HTTPException\<close> with status 401.\<close>

definition decode_token :: "accounts \<Rightarrow> string \<Rightarrow> exn + sub_claim" where
  "decode_token acc token =
     (case jwt_decode acc token of
        None \<Rightarrow> Inl (HTTPException 401 ''Invalid or expired token'')
      | Some payload \<Rightarrow> Inr payload)"

text \<open>
  \<^verbatim>\<open>get_current_user_ws\<close>: the user the token names, or none. Its handler is for
  \<^verbatim>\<open>JWTError\<close>, which \<^verbatim>\<open>decode_token\<close> never raises: the
  \<^verbatim>\<open>HTTPException\<close> of a token that does not decode passes through it.
\<close>

definition get_current_user_ws :: "accounts \<Rightarrow> string \<Rightarrow> exn + int option" where
  "get_current_user_ws acc token =
     (case decode_token acc token of
        Inl e \<Rightarrow> Inl e
      | Inr NoSub \<Rightarrow> Inr None
      | Inr SubNotInt \<Rightarrow> Inr None
      | Inr (SubInt uid) \<Rightarrow> Inr (find (\<lambda>u. u = uid) (user_ids acc)))"

subsection \<open>The endpoint\<close>

text \<open>The body of the outer \<^verbatim>\<open>try\<close>.\<close>

definition session_body ::
  "environment \<Rightarrow> socket \<Rightarrow> accounts \<Rightarrow> string \<Rightarrow> int \<Rightarrow> state \<Rightarrow> ws_state
   \<Rightarrow> (exn option \<times> ws_state) \<times> state" where
  "session_body env sock auth token bid s w =
     (case get_current_user_ws auth token of
        Inl e \<Rightarrow> ((Some e, w), s)
      | Inr None \<Rightarrow> (send_then_close sock ''Authentication failed'' 1008 w, s)
      | Inr (Some uid) \<Rightarrow>
          (case verify_bot_ownership bid uid s of
             Inl e \<Rightarrow>
               (send_then_close sock (''Authorization failed: '' @ exc_str e) 1008 w, s)
           | Inr bt \<Rightarrow>
               (if \<not> truthy (container_id bt)
                then (send_then_close sock
                        ''Bot has no container. Please start the bot first.'' 1000 w, s)
                else
                  (case get_recent_logs env (the (container_id bt)) 50 s of
                     (Inl e, s1) \<Rightarrow> ((Some e, w), s1)
                   | (Inr recent_logs, s1) \<Rightarrow>
                       (case (if recent_logs \<noteq> []
                              then send_text sock (recent_logs_frame recent_logs) w
                              else (None, w)) of
                          (Some e, w1) \<Rightarrow> ((Some e, w1), s1)
                        | (None, w1) \<Rightarrow>
                            (case stream_logs env (the (container_id bt)) s1 of
                               (run, s2) \<Rightarrow> (stream_to_websocket sock run w1, s2)))))))"

text \<open>
  The outer handlers: a disconnect is only logged; any other exception is reported
  in a frame and the session is closed with code 1011, and whatever these two calls
  raise is dropped.
\<close>

definition bot_logs_websocket ::
  "environment \<Rightarrow> socket \<Rightarrow> accounts \<Rightarrow> string \<Rightarrow> int \<Rightarrow> state
   \<Rightarrow> ws_event list \<times> state" where
  "bot_logs_websocket env sock auth token bid s =
     (case session_body env sock auth token bid s ([], 0) of
        ((None, w), s1) \<Rightarrow> (fst w, s1)
      | ((Some e, w), s1) \<Rightarrow>
          (if e = WebSocketDisconnect then (fst w, s1)
           else (fst (snd (send_then_close sock (''Error: '' @ exc_str e) 1011 w)), s1)))"
section \<open>Histories\<close>

text \<open>
  The states the system can be in: it starts with some table of plans and no bots,
  and every request, whoever sends it, with whatever arguments and whatever the
  runtime answers, leads from one such state to the next.
\<close>

definition init_state :: "Plan list \<Rightarrow> state" where
  "init_state ps =
     \<lparr>bots = [], plans = ps, next_bot_id = 1, audit_logs = [],
      storage = (\<lambda>bid. None), docker_client = False\<rparr>"

inductive reachable :: "state \<Rightarrow> bool" where
  init: "reachable (init_state ps)"
| create: "reachable s \<Longrightarrow> reachable (snd (create_bot bot_data uid s))"
| upload: "reachable s \<Longrightarrow> reachable (snd (upload_bot_files bid file uid s))"
| start: "reachable s \<Longrightarrow> reachable (snd (start_bot env bid uid s))"
| stop: "reachable s \<Longrightarrow> reachable (snd (stop_bot env bid uid s))"
| restart: "reachable s \<Longrightarrow> reachable (snd (restart_bot env bid uid s))"
| delete: "reachable s \<Longrightarrow> reachable (snd (delete_bot env bid uid s))"
| logs: "reachable s \<Longrightarrow> reachable (snd (bot_logs_websocket env sock auth token bid s))"

text \<open>
  The quota as the create operation enforces it, read off the rows from the newest
  to the oldest: when a bot was created, its owner had fewer bots than the plan
  chosen for it allows.
\<close>

fun quota_ok :: "Plan list \<Rightarrow> Bot list \<Rightarrow> bool" where
  "quota_ok ps [] = True"
| "quota_ok ps (b # older) =
     ((case find (\<lambda>p. p_id p = plan_id b) ps of
         None \<Rightarrow> False
       | Some p \<Rightarrow> int (length (filter (\<lambda>x. user_id x = user_id b) older)) < max_bots p)
      \<and> quota_ok ps older)"

text \<open>The keys are distinct and below the counter.\<close>

definition ids_ok :: "state \<Rightarrow> bool" where
  "ids_ok s = (distinct (map bot_id (bots s)) \<and> list_all (\<lambda>b. bot_id b < next_bot_id s) (bots s))"

text \<open>A bot without a handle is CREATED or CRASHED.\<close>

definition handle_ok :: "Bot \<Rightarrow> bool" where
  "handle_ok b = (container_id b = None \<longrightarrow> status b = CREATED \<or> status b = CRASHED)"

text \<open>The most recently created bot of a user, if the user has one.\<close>

definition newest_bot :: "int \<Rightarrow> state \<Rightarrow> Bot option" where
  "newest_bot uid s = find (\<lambda>b. user_id b = uid) (rev (bots s))"

text \<open>
  What one request does to the tables, in four shapes: nothing; a new row with the
  next key, no handle and the state CREATED, for an owner who is below the limit of
  the plan chosen; an update of the row with a given key that keeps key, owner and
  plan and that, if it leaves the row without a handle, leaves its state alone or
  makes it CRASHED; the removal of the row with a given key. The plans never change.
\<close>

definition keeps :: "(Bot \<Rightarrow> Bot) \<Rightarrow> bool" where
  "keeps f = (\<forall>b. bot_id (f b) = bot_id b \<and> user_id (f b) = user_id b
                   \<and> plan_id (f b) = plan_id b)"

definition handle_kept :: "(Bot \<Rightarrow> Bot) \<Rightarrow> Bot \<Rightarrow> bool" where
  "handle_kept f bt =
     (container_id (f bt) = None \<longrightarrow>
        container_id bt = None \<and> (status (f bt) = status bt \<or> status (f bt) = CRASHED))"

inductive transition :: "state \<Rightarrow> state \<Rightarrow> bool" where
  same: "bots s' = bots s \<Longrightarrow> next_bot_id s' = next_bot_id s \<Longrightarrow> plans s' = plans s
         \<Longrightarrow> transition s s'"
| insert: "bots s' = bots s @ [b] \<Longrightarrow> next_bot_id s' = next_bot_id s + 1
           \<Longrightarrow> plans s' = plans s \<Longrightarrow> bot_id b = next_bot_id s
           \<Longrightarrow> container_id b = None \<Longrightarrow> status b = CREATED
           \<Longrightarrow> find_plan (plan_id b) s = Some p
           \<Longrightarrow> int (length (filter (\<lambda>x. user_id x = user_id b) (bots s))) < max_bots p
           \<Longrightarrow> transition s s'"
| update: "bots s' = map (\<lambda>b. if bot_id b = bid then f b else b) (bots s)
           \<Longrightarrow> next_bot_id s' = next_bot_id s \<Longrightarrow> plans s' = plans s
           \<Longrightarrow> find_bot bid s = Some bt \<Longrightarrow> keeps f \<Longrightarrow> handle_kept f bt
           \<Longrightarrow> transition s s'"
| remove: "bots s' = filter (\<lambda>b. bot_id b \<noteq> bid) (bots s)
           \<Longrightarrow> next_bot_id s' = next_bot_id s \<Longrightarrow> plans s' = plans s
           \<Longrightarrow> transition s s'"

text \<open>The three properties every reachable state has.\<close>

definition invariant :: "state \<Rightarrow> bool" where
  "invariant s = (ids_ok s \<and> list_all handle_ok (bots s) \<and> quota_ok (plans s) (rev (bots s)))"

section \<open>Example inputs\<close>

text \<open>The plans the application creates at its first start.\<close>

definition default_plans :: "Plan list" where
  "default_plans =
     [\<lparr>p_id = 1, plan_name = ''Free'', max_bots = 1, cpu_limit = ''0.5'', ram_limit = ''256m''\<rparr>,
      \<lparr>p_id = 2, plan_name = ''Basic'', max_bots = 3, cpu_limit = ''1.0'', ram_limit = ''512m''\<rparr>,
      \<lparr>p_id = 3, plan_name = ''Pro'', max_bots = 10, cpu_limit = ''2.0'', ram_limit = ''1g''\<rparr>]"

definition example_container :: container where
  "example_container =
     \<lparr>c_status = ''exited'', c_state = Some (Some 137), c_start = None, c_stop = None,
      c_restart = None, c_remove = None, c_logs_tail = (\<lambda>n. Inr ''hi''),
      c_logs_follow = ([''hi''], None)\<rparr>"

text \<open>A runtime that works: it creates the container \<open>c1\<close> and knows no other.\<close>

definition example_env :: environment where
  "example_env =
     \<lparr>connect = None,
      containers_get = (\<lambda>h. if h = ''c1'' then Inr example_container
                             else Inl (DockerNotFound ''No such container'')),
      images_get = (\<lambda>i. None), images_pull = (\<lambda>i. None),
      containers_create = (\<lambda>a. Inr ''c1''),
      float_quota = (\<lambda>x. Inr 50000)\<rparr>"


text \<open>A runtime in which creating a container fails, and one in which starting the
  container fails, each with an API error.\<close>

definition create_fails_env :: environment where
  "create_fails_env =
     example_env\<lparr>containers_create := (\<lambda>a. Inl (DockerAPIError ''no space left on device''))\<rparr>"

definition start_fails_env :: environment where
  "start_fails_env =
     example_env\<lparr>containers_get := (\<lambda>h. Inr (example_container
        \<lparr>c_start := Some (DockerAPIError ''port is already allocated'')\<rparr>))\<rparr>"

definition echo_bot :: BotCreate where
  "echo_bot = \<lparr>bc_name = ''echo'', bc_runtime = PYTHON, bc_start_cmd = None, bc_plan_id = 1\<rparr>"

definition main_py :: upload where
  "main_py = \<lparr>up_filename = Some ''main.py'', up_members = None\<rparr>"

text \<open>User 1 has created the bot \<open>echo\<close> (it gets id 1) and uploaded \<open>main.py\<close>.\<close>

definition uploaded_state :: state where
  "uploaded_state =
     snd (upload_bot_files 1 main_py 1 (snd (create_bot echo_bot 1 (init_state default_plans))))"

text \<open>The row of that bot, and the state after a successful start.\<close>

definition echo_row :: Bot where
  "echo_row =
     \<lparr>bot_id = 1, user_id = 1, plan_id = 1, runtime = PYTHON, bot_name = ''echo'',
      container_id = None, status = CREATED, start_cmd = None, source_type = Some FILE\<rparr>"

definition free_plan :: Plan where
  "free_plan =
     \<lparr>p_id = 1, plan_name = ''Free'', max_bots = 1, cpu_limit = ''0.5'', ram_limit = ''256m''\<rparr>"

definition running_state :: state where
  "running_state = snd (start_bot example_env 1 1 uploaded_state)"

text \<open>A subscriber's socket on which every call succeeds, and the accounts: one
  user, with the key 1, and one token that decodes, to that user.\<close>

definition open_socket :: socket where
  "open_socket = \<lparr>send_result = (\<lambda>n. None), close_result = None\<rparr>"

definition auth_user1 :: accounts where
  "auth_user1 =
     \<lparr>jwt_decode = (\<lambda>token. if token = ''token-of-user-1'' then Some (SubInt 1) else None),
      user_ids = [1]\<rparr>"

text \<open>Accounts in which the token decodes to a user who has no row.\<close>

definition auth_stranger :: accounts where
  "auth_stranger = auth_user1\<lparr>user_ids := []\<rparr>"

text \<open>A container that has printed one text and stopped: the text is its tail and
  the lines are its follow stream.\<close>

definition printing_container :: "string \<Rightarrow> string list \<Rightarrow> container" where
  "printing_container tail_text ls =
     example_container\<lparr>c_logs_tail := (\<lambda>n. Inr tail_text), c_logs_follow := (ls, None)\<rparr>"

text \<open>Runtimes whose follow stream breaks with an exception that is no API error,
  after one line and at once.\<close>

definition stream_breaks_env :: environment where
  "stream_breaks_env =
     example_env\<lparr>containers_get := (\<lambda>h. Inr (example_container
        \<lparr>c_logs_follow := ([''hi''], Some (OtherError ''connection reset''))\<rparr>))\<rparr>"

definition stream_times_out_env :: environment where
  "stream_times_out_env =
     example_env\<lparr>containers_get := (\<lambda>h. Inr (example_container
        \<lparr>c_logs_follow := ([], Some (OtherError ''read timed out''))\<rparr>))\<rparr>"

text \<open>A host on which no client can be constructed.\<close>

definition no_docker_env :: environment where
  "no_docker_env = example_env\<lparr>connect := Some (DockerException ''socket missing'')\<rparr>"

definition api_error_env :: environment where
  "api_error_env =
     example_env\<lparr>containers_get := (\<lambda>h. Inl (DockerAPIError ''500 Server Error''))\<rparr>"

text \<open>File names and uploads.\<close>

definition dot_backslash_dot :: string where
  "dot_backslash_dot = [CHR ''.'', backslash, CHR ''.'']"

definition long_dotted_name :: string where
  "long_dotted_name = replicate 249 CHR ''a'' @ ''.bbbbbbbbbb.py''"

definition traversal_zip :: upload where
  "traversal_zip =
     \<lparr>up_filename = Some ''a.zip'', up_members = Some [(''../etc/passwd'', ReadOk)]\<rparr>"

text \<open>An archive called \<open>lib.zip\<close> with a member below its own name, an archive
  with a package, and one whose first member fails its checksum.\<close>

definition nested_zip :: upload where
  "nested_zip =
     \<lparr>up_filename = Some ''lib.zip'', up_members = Some [(''lib.zip/x.py'', ReadOk)]\<rparr>"

definition package_zip :: upload where
  "package_zip =
     \<lparr>up_filename = Some ''bot.zip'',
      up_members = Some [(''src/'', ReadOk), (''src/main.py'', ReadOk),
                         (''requirements.txt'', ReadOk)]\<rparr>"

definition damaged_zip :: upload where
  "damaged_zip =
     \<lparr>up_filename = Some ''bot.zip'',
      up_members = Some [(''main.py'', CopyRaises (BadZipFile ''Bad CRC-32 for file'')),
                         (''util.py'', ReadOk)]\<rparr>"

definition makefile_upload :: upload where
  "makefile_upload = \<lparr>up_filename = Some ''Makefile'', up_members = None\<rparr>"

definition dotfile_upload :: upload where
  "dotfile_upload = \<lparr>up_filename = Some ''.env'', up_members = None\<rparr>"

text \<open>User 1 creates a first bot under the plan Free and a second under Basic.\<close>

definition second_bot :: BotCreate where
  "second_bot = \<lparr>bc_name = ''second'', bc_runtime = NODE, bc_start_cmd = None, bc_plan_id = 2\<rparr>"

definition third_bot :: BotCreate where
  "third_bot = \<lparr>bc_name = ''third'', bc_runtime = NODE, bc_start_cmd = None, bc_plan_id = 1\<rparr>"

definition two_bots_state :: state where
  "two_bots_state =
     snd (create_bot second_bot 1 (snd (create_bot echo_bot 1 (init_state default_plans))))"

text \<open>The state after a start in which the runtime could not create the container.\<close>

definition crashed_state :: state where
  "crashed_state = snd (start_bot create_fails_env 1 1 uploaded_state)"

section \<open>Facts for evaluation\<close>

lemmas char_defs = newline_def backslash_def ascii_upper_chars_def ascii_lower_chars_def
  digit_chars_def lower_char_def str_lower_def name_char_def safe_char_def

lemmas utils_defs = str_contains_def str_endswith_def str_int_def dangerous_literals_def
  search_then_pipe_def validate_start_command_def dollar_at_def match_bot_name_pattern_def
  validate_bot_name_def basename_def re_sub_unsafe_def rfind_def splitext_def
  sanitize_filename_def

lemmas path_defs = path_parts_def path_is_absolute_def path_name_def path_suffix_def

lemmas model_defs = bot_response_def bot_dir_def get_bot_storage_path_def set_bot_dir_def
  put_entry_def write_file_def unlink_def find_bot_def find_plan_def update_bot_def
  create_audit_log_def

lemmas fs_defs = path_exists_def path_isdir_def mkdir_entry_def os_mkdir_def open_entry_def
  open_wb_def arcname_def extract_member_def

lemmas driver_defs = get_docker_client_def with_client_def container_args_def
  ensure_image_def create_failed_def create_container_def start_container_def
  stop_container_def restart_container_def remove_container_def exit_code_def
  get_container_status_def stream_failed_def stream_logs_def get_recent_logs_def

lemmas bots_defs = verify_bot_ownership_def user_bot_count_def create_bot_def clean_dir_def
  upload_bot_files_def start_failed_def
  ensure_container_def start_bot_def stop_bot_def restart_bot_def delete_bot_def

lemmas sockets_defs = send_text_def close_def send_then_close_def stream_to_websocket_def
  recent_logs_frame_def decode_token_def get_current_user_ws_def session_body_def
  bot_logs_websocket_def

lemmas example_defs = default_plans_def init_state_def example_container_def example_env_def
  create_fails_env_def start_fails_env_def echo_bot_def main_py_def echo_row_def
  free_plan_def open_socket_def auth_user1_def printing_container_def stream_breaks_env_def
  stream_times_out_env_def no_docker_env_def api_error_env_def

lemma str_nat_digit [simp]: "n < 10 \<Longrightarrow> str_nat n = [digit_chars ! n]"
  by (simp add: str_nat.simps)

lemma created_state_eq:
  "snd (create_bot echo_bot 1 (init_state default_plans)) =
     \<lparr>bots = [\<lparr>bot_id = 1, user_id = 1, plan_id = 1, runtime = PYTHON, bot_name = ''echo'',
                container_id = None, status = CREATED, start_cmd = None,
                source_type = None\<rparr>],
      plans = default_plans, next_bot_id = 2,
      audit_logs = [\<lparr>al_user_id = 1, al_action = ''bot_create'', al_target_id = ''1'',
                     al_details = None\<rparr>],
      storage = (\<lambda>bid. None)(1 := Some []), docker_client = False\<rparr>"
  by (simp add: create_bot_def echo_bot_def init_state_def default_plans_def utils_defs
      char_defs model_defs user_bot_count_def Let_def)

lemma uploaded_state_eq:
  "uploaded_state =
     \<lparr>bots = [\<lparr>bot_id = 1, user_id = 1, plan_id = 1, runtime = PYTHON, bot_name = ''echo'',
                container_id = None, status = CREATED, start_cmd = None,
                source_type = Some FILE\<rparr>],
      plans = default_plans, next_bot_id = 2,
      audit_logs = [\<lparr>al_user_id = 1, al_action = ''bot_create'', al_target_id = ''1'',
                     al_details = None\<rparr>,
                    \<lparr>al_user_id = 1, al_action = ''bot_upload'', al_target_id = ''1'',
                     al_details = Some ''Uploaded main.py''\<rparr>],
      storage = (\<lambda>bid. None)(1 := Some [(''main.py'', RegularFile)]),
      docker_client = False\<rparr>"
  unfolding uploaded_state_def created_state_eq
  by (simp add: upload_bot_files_def verify_bot_ownership_def main_py_def utils_defs char_defs
      model_defs path_defs clean_dir_def Let_def)

section \<open>Properties\<close>

subsection \<open>Status query\<close>





subsection \<open>Bot names\<close>

lemma newline_not_name_char: "\<not> name_char newline"
  by (simp add: char_defs)

lemma match_bot_name_patternI:
  assumes "3 \<le> k" "k \<le> 50" "k \<le> length s" "list_all name_char (take k s)" "dollar_at s k"
  shows "match_bot_name_pattern s"
proof -
  have "k \<in> {3..<51}" using assms(1,2) by (simp only: atLeastLessThan_iff) arith
  then have "k \<in> set (rev [3..<51])" by (simp only: set_rev set_upt)
  then show ?thesis
    unfolding match_bot_name_pattern_def list_ex_iff using assms(3-5) by blast
qed

text \<open>
  C9. Bot-name validation accepts strings with a character outside
  \<^verbatim>\<open>[A-Za-z0-9_-]\<close>: every string of 3 to 50 characters of the class followed
  by exactly one newline is accepted, although the newline is not in the class.
\<close>

theorem validate_bot_name_trailing_newline:
  assumes "3 \<le> length p" and "length p \<le> 50" and "list_all name_char p"
  shows "validate_bot_name (p @ [newline]) \<and> \<not> list_all name_char (p @ [newline])"
proof -
  have "dollar_at (p @ [newline]) (length p)"
    by (simp add: dollar_at_def)
  then have "match_bot_name_pattern (p @ [newline])"
    using assms by (intro match_bot_name_patternI [where k = "length p"]) simp_all
  then show ?thesis
    by (simp add: validate_bot_name_def newline_not_name_char)
qed

theorem validate_bot_name_trailing_newline_witness:
  "3 \<le> length ''bot'' \<and> length ''bot'' \<le> 50 \<and> list_all name_char ''bot''
   \<and> validate_bot_name (''bot'' @ [newline])
   \<and> \<not> list_all name_char (''bot'' @ [newline])"
proof -
  have h: "list_all name_char ''bot''"
    by (simp add: char_defs)
  show ?thesis
    using validate_bot_name_trailing_newline [of "''bot''"] h by simp
qed

subsection \<open>File names\<close>

text \<open>
  C7 (the code departs from the claim). \<^verbatim>\<open>sanitize_filename\<close> is not
  idempotent. The dots of \<open>.\.\<close> are not adjacent when \<^verbatim>\<open>..\<close> is removed
  and come together when the backslash is removed afterwards: the result is
  \<^verbatim>\<open>..\<close>, which a second pass empties.
\<close>

theorem sanitize_filename_not_idempotent:
  "sanitize_filename dot_backslash_dot = ''..''
   \<and> sanitize_filename (sanitize_filename dot_backslash_dot) = []
   \<and> sanitize_filename (sanitize_filename dot_backslash_dot)
       \<noteq> sanitize_filename dot_backslash_dot"
  by (simp add: dot_backslash_dot_def utils_defs char_defs)

lemma basename_no_slash:
  assumes "CHR ''/'' \<notin> set p"
  shows "basename p = p"
proof -
  have "\<forall>x\<in>set (rev p). x \<noteq> CHR ''/''"
    using assms by auto
  then have "takeWhile (\<lambda>c. c \<noteq> CHR ''/'') (rev p) = rev p"
    by (simp only: takeWhile_eq_all_conv)
  then show ?thesis
    unfolding basename_def by (simp only: rev_rev_ident)
qed

lemma replicate_a_no_dotdot:
  "str_replace ''..'' [] (replicate n CHR ''a'' @ t) = replicate n CHR ''a'' @ str_replace ''..'' [] t"
  by (induction n) simp_all

lemma replicate_a_no_slash:
  "str_replace ''/'' [] (replicate n CHR ''a'' @ t) = replicate n CHR ''a'' @ str_replace ''/'' [] t"
  by (induction n) simp_all

lemma replicate_a_no_backslash:
  "str_replace [backslash] [] (replicate n CHR ''a'' @ t)
     = replicate n CHR ''a'' @ str_replace [backslash] [] t"
  by (induction n) (simp_all add: backslash_def)

lemma replicate_a_safe:
  "re_sub_unsafe (replicate n CHR ''a'' @ t) = replicate n CHR ''a'' @ re_sub_unsafe t"
  by (simp add: re_sub_unsafe_def safe_char_def ascii_lower_chars_def)

text \<open>
  The same happens where the name is cut: 249 letters, a dot, ten letters and
  \<^verbatim>\<open>.py\<close> make 263 characters; the stem is cut after its 250th character, the
  dot, and the extension is put behind it.
\<close>

lemma sanitize_filename_truncation_joins_dots:
  "sanitize_filename long_dotted_name = replicate 249 CHR ''a'' @ ''..py''"
proof -
  have nm: "\<And>t. CHR ''/'' \<notin> set t \<Longrightarrow>
      basename (replicate 249 CHR ''a'' @ t) = replicate 249 CHR ''a'' @ t"
    by (rule basename_no_slash) simp
  have t1: "str_replace ''..'' [] ''.bbbbbbbbbb.py'' = ''.bbbbbbbbbb.py''"
    by simp
  have t2: "str_replace ''/'' [] ''.bbbbbbbbbb.py'' = ''.bbbbbbbbbb.py''"
    by simp
  have t3: "str_replace [backslash] [] ''.bbbbbbbbbb.py'' = ''.bbbbbbbbbb.py''"
    by (simp add: backslash_def)
  have t4: "re_sub_unsafe ''.bbbbbbbbbb.py'' = ''.bbbbbbbbbb.py''"
    by (simp add: re_sub_unsafe_def char_defs)
  have f3: "re_sub_unsafe (str_replace [backslash] [] (str_replace ''/'' []
        (str_replace ''..'' [] (basename long_dotted_name))))
      = replicate 249 CHR ''a'' @ ''.bbbbbbbbbb.py''"
    unfolding long_dotted_name_def
    by (simp only: nm [of "''.bbbbbbbbbb.py''", simplified] replicate_a_no_dotdot
        replicate_a_no_slash replicate_a_no_backslash replicate_a_safe t1 t2 t3 t4)
  have sp: "splitext (replicate 249 CHR ''a'' @ ''.bbbbbbbbbb.py'')
      = (replicate 249 CHR ''a'' @ ''.bbbbbbbbbb'', ''.py'')"
    by (simp add: splitext_def rfind_def takeWhile_append Let_def)
  show ?thesis
    unfolding sanitize_filename_def Let_def f3 sp by simp
qed

lemma str_contains_Nil: "str_contains n [] = (n = [])"
  by (simp add: str_contains_def)

lemma str_contains_Cons:
  "str_contains n (c # s) = (prefix n (c # s) \<or> str_contains n s)"
  by (auto simp: str_contains_def)

lemma prefix_dot: "prefix ''.'' s = (\<exists>t. s = CHR ''.'' # t)"
  by (cases s) auto

lemma prefix_dotdot:
  "prefix ''..'' (c # s) = (c = CHR ''.'' \<and> (\<exists>t. s = CHR ''.'' # t))"
  by (cases s) auto

lemma str_replace_length: "length (str_replace old [] s) \<le> length s"
proof (induction old "[] :: string" s rule: str_replace.induct)
  case (1 old)
  then show ?case by simp
next
  case (2 old c s)
  then show ?case by (auto simp: le_SucI intro: le_trans [OF _ length_drop [THEN eq_imp_le]])
qed

lemma str_replace_dotdot_id:
  "\<not> str_contains ''..'' s \<Longrightarrow> str_replace ''..'' [] s = s"
  by (induction s) (auto simp: str_contains_Cons)

lemma str_replace_dotdot_Cons:
  "str_replace ''..'' [] (c # s) =
     (if c = CHR ''.'' \<and> (\<exists>t. s = CHR ''.'' # t) then str_replace ''..'' [] (tl s)
      else c # str_replace ''..'' [] s)"
  by (cases s) auto

lemma str_replace_dotdot_shorter:
  "str_contains ''..'' s \<Longrightarrow> length (str_replace ''..'' [] s) < length s"
proof (induction s)
  case Nil
  then show ?case by (simp add: str_contains_Nil)
next
  case (Cons c s)
  show ?case
  proof (cases "c = CHR ''.'' \<and> (\<exists>t. s = CHR ''.'' # t)")
    case True
    then obtain t where t: "s = CHR ''.'' # t" by blast
    have "length (str_replace ''..'' [] t) \<le> length t"
      by (rule str_replace_length)
    then show ?thesis
      unfolding str_replace_dotdot_Cons using True t by simp
  next
    case False
    then have "str_contains ''..'' s"
      using Cons.prems by (auto simp: str_contains_Cons prefix_dot)
    then have "length (str_replace ''..'' [] s) < length s"
      by (rule Cons.IH)
    moreover have "str_replace ''..'' [] (c # s) = c # str_replace ''..'' [] s"
      by (simp only: str_replace_dotdot_Cons False if_False)
    ultimately show ?thesis by simp
  qed
qed

lemma str_replace_char_id: "c \<notin> set s \<Longrightarrow> str_replace [c] [] s = s"
  by (induction s) auto

lemma rfind_absent: "c \<notin> set s \<Longrightarrow> rfind c s = - 1"
  by (simp add: rfind_def)

lemma rfind_last: "c \<notin> set r \<Longrightarrow> rfind c (a @ c # r) = int (length a)"
proof -
  assume "c \<notin> set r"
  then have "takeWhile (\<lambda>x. x \<noteq> c) (rev r @ c # rev a) = rev r"
    by (subst takeWhile_append2) auto
  then show ?thesis by (simp add: rfind_def)
qed

lemma splitext_no_dot:
  "CHR ''/'' \<notin> set p \<Longrightarrow> CHR ''.'' \<notin> set p \<Longrightarrow> splitext p = (p, [])"
  by (simp add: splitext_def rfind_absent)

lemma splitext_last_dot:
  assumes "CHR ''/'' \<notin> set a" "CHR ''/'' \<notin> set r" "CHR ''.'' \<notin> set r"
  shows "splitext (a @ CHR ''.'' # r)
     = (if list_ex (\<lambda>c. c \<noteq> CHR ''.'') a then (a, CHR ''.'' # r) else (a @ CHR ''.'' # r, []))"
  using assms by (simp add: splitext_def rfind_absent rfind_last Let_def)

lemma sanitize_filename_alt:
  "sanitize_filename x = truncate_name (re_sub_unsafe (str_replace [backslash] []
      (str_replace ''/'' [] (str_replace ''..'' [] (basename x)))))"
  by (simp add: sanitize_filename_def truncate_name_def Let_def)

lemma splitext_append: "splitext p = (n, e) \<Longrightarrow> n @ e = p"
  by (auto simp: splitext_def Let_def split: if_splits)

lemma truncate_name_length: "length (truncate_name z) \<le> length z"
proof (cases "length z > 255")
  case False
  then show ?thesis by (simp add: truncate_name_def)
next
  case True
  obtain n e where s: "splitext z = (n, e)" by (cases "splitext z") auto
  have "length (take 250 n @ e) \<le> length (n @ e)" by simp
  then show ?thesis
    using True s splitext_append [OF s] by (simp add: truncate_name_def)
qed

lemma truncate_name_set: "set (truncate_name z) \<subseteq> set z"
proof (cases "length z > 255")
  case False
  then show ?thesis by (simp add: truncate_name_def)
next
  case True
  obtain n e where s: "splitext z = (n, e)" by (cases "splitext z") auto
  have "set (take 250 n @ e) \<subseteq> set (n @ e)"
    using set_take_subset [of 250 n] by auto
  then show ?thesis
    using True s splitext_append [OF s] by (simp add: truncate_name_def)
qed

lemma safe_underscore: "safe_char CHR ''_''"
  by (simp add: safe_char_def)

lemma unsafe_slashes: "\<not> safe_char CHR ''/''" "\<not> safe_char backslash"
  by (simp_all add: safe_char_def backslash_def ascii_lower_chars_def ascii_upper_chars_def
      digit_chars_def)

lemma safe_re_sub_unsafe: "list_all safe_char (re_sub_unsafe s)"
  unfolding re_sub_unsafe_def by (induction s) (simp_all add: safe_underscore)

lemma re_sub_unsafe_id: "list_all safe_char s \<Longrightarrow> re_sub_unsafe s = s"
  unfolding re_sub_unsafe_def by (induction s) simp_all

lemma safe_sanitize_filename: "list_all safe_char (sanitize_filename x)"
  unfolding sanitize_filename_alt
  using truncate_name_set safe_re_sub_unsafe by (fastforce simp: list_all_iff)

lemma safe_no_slash:
  assumes "list_all safe_char s"
  shows "CHR ''/'' \<notin> set s" and "backslash \<notin> set s"
  using assms unsafe_slashes by (auto simp only: list_all_iff)

lemma str_contains_prefix: "prefix n s \<Longrightarrow> str_contains n s"
  by (cases s) (auto simp: str_contains_def)

lemma all_dots_prefix:
  assumes "\<not> list_ex (\<lambda>c. c \<noteq> CHR ''.'') w" and "2 \<le> length w"
  shows "prefix ''..'' (w @ t)"
proof -
  obtain c1 c2 w' where w: "w = c1 # c2 # w'"
    using assms(2) by (cases w; cases "tl w") auto
  then show ?thesis using assms(1) by simp
qed

lemma truncate_name_short: "length z \<le> 255 \<Longrightarrow> truncate_name z = z"
  by (simp add: truncate_name_def)

lemma truncate_name_idem:
  assumes safe: "list_all safe_char z"
    and nodd: "\<not> str_contains ''..'' (truncate_name z)"
  shows "truncate_name (truncate_name z) = truncate_name z"
proof (cases "length z > 255")
  case False
  then show ?thesis by (simp add: truncate_name_def)
next
  case long: True
  have noslash: "CHR ''/'' \<notin> set z" using safe by (rule safe_no_slash)
  have cut: "truncate_name (take 250 z) = take 250 z"
    by (rule truncate_name_short) simp
  show ?thesis
  proof (cases "CHR ''.'' \<in> set z")
    case False
    then have "truncate_name z = take 250 z"
      using long noslash by (simp add: truncate_name_def splitext_no_dot)
    then show ?thesis using cut by simp
  next
    case True
    then obtain a r where z: "z = a @ CHR ''.'' # r" and r: "CHR ''.'' \<notin> set r"
      using split_list_last [of "CHR ''.''" z] by blast
    have ns: "CHR ''/'' \<notin> set a" "CHR ''/'' \<notin> set r"
      using noslash z by auto
    show ?thesis
    proof (cases "list_ex (\<lambda>c. c \<noteq> CHR ''.'') a")
      case False
      then have "truncate_name z = take 250 z"
        using long unfolding z by (simp add: truncate_name_def splitext_last_dot [OF ns r])
      then show ?thesis using cut by simp
    next
      case ex: True
      have y: "truncate_name z = take 250 a @ CHR ''.'' # r"
        using long ex unfolding z by (simp add: truncate_name_def splitext_last_dot [OF ns r])
      show ?thesis
      proof (cases "length (take 250 a @ CHR ''.'' # r) > 255")
        case False
        then show ?thesis unfolding y by (simp add: truncate_name_def)
      next
        case True
        have ns': "CHR ''/'' \<notin> set (take 250 a)"
          using ns(1) set_take_subset [of 250 a] by auto
        have "list_ex (\<lambda>c. c \<noteq> CHR ''.'') (take 250 a)"
        proof (cases "length a \<le> 250")
          case True
          then show ?thesis using ex by simp
        next
          case False
          show ?thesis
          proof (rule ccontr)
            assume "\<not> list_ex (\<lambda>c. c \<noteq> CHR ''.'') (take 250 a)"
            then have "prefix ''..'' (take 250 a @ CHR ''.'' # r)"
              using False by (intro all_dots_prefix) simp_all
            then show False
              using nodd str_contains_prefix unfolding y by blast
          qed
        qed
        then have "splitext (take 250 a @ CHR ''.'' # r) = (take 250 a, CHR ''.'' # r)"
          by (simp add: splitext_last_dot [OF ns' ns(2) r])
        then show ?thesis
          unfolding y using True by (simp add: truncate_name_def)
      qed
    qed
  qed
qed

text \<open>
  The extent of the defect: \<^verbatim>\<open>sanitize_filename\<close> is idempotent at exactly the
  inputs whose sanitized form has no \<^verbatim>\<open>..\<close> in it.
\<close>

lemma sanitize_filename_idempotent_iff:
  "sanitize_filename (sanitize_filename x) = sanitize_filename x
     \<longleftrightarrow> \<not> str_contains ''..'' (sanitize_filename x)"
proof -
  let ?f3 = "re_sub_unsafe (str_replace [backslash] []
      (str_replace ''/'' [] (str_replace ''..'' [] (basename x))))"
  let ?y = "sanitize_filename x"
  have y: "?y = truncate_name ?f3" by (rule sanitize_filename_alt)
  have safe: "list_all safe_char ?y" by (rule safe_sanitize_filename)
  note nos = safe_no_slash [OF safe]
  have base: "basename ?y = ?y"
  proof -
    have "\<forall>c\<in>set (rev ?y). c \<noteq> CHR ''/''" using nos(1) by auto
    then have "takeWhile (\<lambda>c. c \<noteq> CHR ''/'') (rev ?y) = rev ?y"
      by (simp only: takeWhile_eq_all_conv)
    then show ?thesis unfolding basename_def by (simp only: rev_rev_ident)
  qed
  show ?thesis
  proof
    assume idem: "sanitize_filename ?y = ?y"
    show "\<not> str_contains ''..'' ?y"
    proof
      assume dd: "str_contains ''..'' ?y"
      let ?d = "str_replace ''..'' [] ?y"
      have "length (sanitize_filename ?y)
          \<le> length (re_sub_unsafe (str_replace [backslash] [] (str_replace ''/'' [] ?d)))"
        unfolding sanitize_filename_alt [of ?y] base by (rule truncate_name_length)
      also have "\<dots> = length (str_replace [backslash] [] (str_replace ''/'' [] ?d))"
        by (simp add: re_sub_unsafe_def)
      also have "\<dots> \<le> length (str_replace ''/'' [] ?d)" by (rule str_replace_length)
      also have "\<dots> \<le> length ?d" by (rule str_replace_length)
      also have "\<dots> < length ?y" using dd by (rule str_replace_dotdot_shorter)
      finally show False using idem by simp
    qed
  next
    assume nodd: "\<not> str_contains ''..'' ?y"
    have "sanitize_filename ?y = truncate_name ?y"
      unfolding sanitize_filename_alt [of ?y] base
      by (simp only: str_replace_dotdot_id [OF nodd] str_replace_char_id [OF nos(1)]
          str_replace_char_id [OF nos(2)] re_sub_unsafe_id [OF safe])
    also have "\<dots> = truncate_name (truncate_name ?f3)" by (simp only: y)
    also have "\<dots> = truncate_name ?f3"
      using nodd unfolding y by (intro truncate_name_idem safe_re_sub_unsafe)
    finally show "sanitize_filename ?y = ?y" by (simp only: y)
  qed
qed

subsection \<open>Uploads\<close>

lemma empty_not_allowed: "[] \<notin> set (allowed_extensions (get_runtime_config rt))"
  by (cases rt) simp_all

lemma check_members_BadRequest:
  "check_members rt ms = Some e \<Longrightarrow> \<exists>d. e = BadRequestException d"
  by (induction ms) (auto simp: Let_def split: if_splits)

text \<open>The loop rejects an archive exactly when one member, wherever it stands, fails
  a check.\<close>

lemma check_members_rejects:
  "list_ex (bad_member rt) ms \<Longrightarrow> \<exists>d. check_members rt ms = Some (BadRequestException d)"
  by (induction ms) (auto simp: bad_member_def Let_def)

lemma check_members_accepts:
  "\<not> list_ex (bad_member rt) ms \<Longrightarrow> check_members rt ms = None"
  by (induction ms) (auto simp: bad_member_def Let_def)

text \<open>What a rejected archive leaves behind: the old entries are gone, no member has
  been extracted, and the uploaded archive itself is in the directory.\<close>

lemma upload_rejected_archive:
  assumes "verify_bot_ownership bid uid s = Inr bt"
    and "filename = sanitize_filename
           (if truthy (up_filename file) then the (up_filename file) else ''upload'')"
    and "str_endswith filename ''.zip''"
    and "up_members file = Some ms"
    and "list_ex (bad_member (runtime bt)) (map fst ms)"
  shows "\<exists>d. fst (upload_bot_files bid file uid s) = Inl (BadRequestException d)"
    and "bot_dir (snd (upload_bot_files bid file uid s)) bid
           = write_file filename (clean_dir (bot_dir s bid))"
    and "bots (snd (upload_bot_files bid file uid s)) = bots s"
proof -
  obtain d where d: "check_members (runtime bt) (map fst ms) = Some (BadRequestException d)"
    using check_members_rejects [OF assms(5)] by blast
  show "\<exists>d. fst (upload_bot_files bid file uid s) = Inl (BadRequestException d)"
    using assms(1-4) d by (simp add: upload_bot_files_def Let_def)
  show "bot_dir (snd (upload_bot_files bid file uid s)) bid
           = write_file filename (clean_dir (bot_dir s bid))"
    using assms(1-4) d
    by (simp add: upload_bot_files_def Let_def bot_dir_def set_bot_dir_def
        get_bot_storage_path_def)
  show "bots (snd (upload_bot_files bid file uid s)) = bots s"
    using assms(1-4) d
    by (simp add: upload_bot_files_def Let_def set_bot_dir_def get_bot_storage_path_def)
qed

text \<open>
  The two writes of the endpoint create their file: after the clearing step every
  entry is called \<^verbatim>\<open>.gitkeep\<close>, so opening any other name for writing
  succeeds and adds the entry.
\<close>

lemma clean_dir_names: "(n, k) \<in> set (clean_dir d) \<Longrightarrow> n = ''.gitkeep''"
  by (cases k) (auto simp: clean_dir_def)

lemma map_of_clean_dir: "n \<noteq> ''.gitkeep'' \<Longrightarrow> map_of (clean_dir d) n = None"
  using clean_dir_names [of n _ d] by (auto simp: map_of_eq_None_iff)

lemma open_wb_after_clean_dir:
  assumes "n \<noteq> ''.gitkeep''"
  shows "open_wb [n] (clean_dir d) = Inr (write_file n (clean_dir d))"
proof -
  have "filter (\<lambda>e. fst e \<noteq> n) (clean_dir d) = clean_dir d"
    using clean_dir_names [of _ _ d] assms by (auto simp: filter_id_conv)
  then show ?thesis
    using map_of_clean_dir [OF assms, of d]
    by (simp add: open_wb_def open_entry_def write_file_def put_entry_def)
qed

lemma zip_name_not_gitkeep: "str_endswith n ''.zip'' \<Longrightarrow> n \<noteq> ''.gitkeep''"
  by (auto simp: str_endswith_def)

lemma allowed_name_not_gitkeep:
  "path_suffix n \<in> set (allowed_extensions (get_runtime_config rt)) \<Longrightarrow> n \<noteq> ''.gitkeep''"
  by (cases rt) (auto simp: path_defs rfind_def)

text \<open>
  The extraction at work, in a directory that holds the archive \<open>lib.zip\<close>: a
  member below a regular file, a file where a directory is and a directory where a
  file is end it with the error of the system call; empty and single-dot components
  are skipped; a member that cannot be read ends it with the reader's exception,
  after the directories above it have been made.
\<close>

lemma extractall_examples:
  "extractall [(''lib.zip/x.py'', ReadOk)] [(''lib.zip'', RegularFile)]
     = (Some (OSError NotADirectoryError), [(''lib.zip'', RegularFile)])"
  "extractall [(''a/b'', ReadOk), (''a/b/c.py'', ReadOk)] [(''lib.zip'', RegularFile)]
     = (Some (OSError NotADirectoryError),
        [(''lib.zip'', RegularFile), (''a'', Directory [(''b'', RegularFile)])])"
  "extractall [(''a/b/c.py'', ReadOk), (''a/b'', ReadOk)] [(''lib.zip'', RegularFile)]
     = (Some (OSError IsADirectoryError),
        [(''lib.zip'', RegularFile),
         (''a'', Directory [(''b'', Directory [(''c.py'', RegularFile)])])])"
  "extractall [(''a'', ReadOk), (''a/'', ReadOk)] [(''lib.zip'', RegularFile)]
     = (Some (OSError FileExistsError), [(''lib.zip'', RegularFile), (''a'', RegularFile)])"
  "extractall [(''.'', ReadOk)] [(''lib.zip'', RegularFile)]
     = (Some (OSError IsADirectoryError), [(''lib.zip'', RegularFile)])"
  "extractall [(''a//b.py'', ReadOk), (''./c.py'', ReadOk), (''d/./e.py'', ReadOk)]
       [(''lib.zip'', RegularFile)]
     = (None, [(''lib.zip'', RegularFile), (''a'', Directory [(''b.py'', RegularFile)]),
               (''c.py'', RegularFile), (''d'', Directory [(''e.py'', RegularFile)])])"
  "extractall [(''s/x.py'', OpenRaises (RuntimeError ''encrypted'')), (''y.py'', ReadOk)]
       [(''lib.zip'', RegularFile)]
     = (Some (RuntimeError ''encrypted''), [(''lib.zip'', RegularFile), (''s'', Directory [])])"
  by (simp_all add: fs_defs str_endswith_def put_entry_def Let_def)

text \<open>
  Three uploads to the bot of the examples. The package is extracted, the archive
  removed and the source type set. The member below the archive's own name ends the
  request with the error of the file system: the archive stays, and the row is as
  it was. The damaged archive is refused as an invalid zip file; the archive and the
  file that was being written stay.
\<close>

lemma upload_package_zip:
  "fst (upload_bot_files 1 package_zip 1 uploaded_state) = Inr ''bot.zip''
   \<and> bot_dir (snd (upload_bot_files 1 package_zip 1 uploaded_state)) 1
     = [(''src'', Directory [(''main.py'', RegularFile)]), (''requirements.txt'', RegularFile)]
   \<and> map source_type (bots (snd (upload_bot_files 1 package_zip 1 uploaded_state)))
     = [Some ZIP]"
  unfolding uploaded_state_eq
  by (simp add: upload_bot_files_def verify_bot_ownership_def package_zip_def utils_defs
      char_defs model_defs path_defs fs_defs clean_dir_def Let_def)

lemma upload_nested_zip:
  "fst (upload_bot_files 1 nested_zip 1 uploaded_state) = Inl (OSError NotADirectoryError)
   \<and> bot_dir (snd (upload_bot_files 1 nested_zip 1 uploaded_state)) 1
     = [(''lib.zip'', RegularFile)]
   \<and> bots (snd (upload_bot_files 1 nested_zip 1 uploaded_state)) = bots uploaded_state"
  unfolding uploaded_state_eq
  by (simp add: upload_bot_files_def verify_bot_ownership_def nested_zip_def utils_defs
      char_defs model_defs path_defs fs_defs clean_dir_def Let_def)

lemma upload_damaged_zip:
  "fst (upload_bot_files 1 damaged_zip 1 uploaded_state)
     = Inl (BadRequestException ''Invalid zip file'')
   \<and> bot_dir (snd (upload_bot_files 1 damaged_zip 1 uploaded_state)) 1
     = [(''bot.zip'', RegularFile), (''main.py'', RegularFile)]
   \<and> bots (snd (upload_bot_files 1 damaged_zip 1 uploaded_state)) = bots uploaded_state"
  unfolding uploaded_state_eq
  by (simp add: upload_bot_files_def verify_bot_ownership_def damaged_zip_def utils_defs
      char_defs model_defs path_defs fs_defs clean_dir_def Let_def)

text \<open>
  C2 (the code departs from the claim). An archive whose only member is
  \<^verbatim>\<open>../etc/passwd\<close> is rejected with a \<^verbatim>\<open>BadRequestException\<close> and none of
  its members is extracted, but a file has been written under the artifact
  directory: the archive was saved there before it was checked, and only the path
  of a successful extraction removes it.
\<close>

theorem upload_traversal_zip_leaves_archive:
  "fst (upload_bot_files 1 traversal_zip 1 uploaded_state)
     = Inl (BadRequestException ''Invalid file path in zip'')
   \<and> bot_dir (snd (upload_bot_files 1 traversal_zip 1 uploaded_state)) 1
     = [(''a.zip'', RegularFile)]"
  unfolding uploaded_state_eq
  by (simp add: upload_bot_files_def verify_bot_ownership_def traversal_zip_def utils_defs
      char_defs model_defs path_defs clean_dir_def Let_def)

text \<open>
  C6 (amended). A single file, that is an upload whose sanitized name does not end
  in \<^verbatim>\<open>.zip\<close>, is rejected with a \<^verbatim>\<open>BadRequestException\<close> when that name has
  no extension, a dotfile for example: this branch asks for the extension to be in
  the allow-list, and the empty extension is in no allow-list. Nothing is persisted;
  the directory is left as the clearing step left it.
\<close>

theorem upload_single_file_without_extension:
  assumes "verify_bot_ownership bid uid s = Inr bt"
    and "filename = sanitize_filename
           (if truthy (up_filename file) then the (up_filename file) else ''upload'')"
    and "\<not> str_endswith filename ''.zip''"
    and "path_suffix filename = []"
  shows "fst (upload_bot_files bid file uid s)
           = Inl (BadRequestException
               (''File type  not allowed for '' @ runtime_str (runtime bt) @ '' runtime''))
         \<and> bot_dir (snd (upload_bot_files bid file uid s)) bid = clean_dir (bot_dir s bid)
         \<and> bots (snd (upload_bot_files bid file uid s)) = bots s"
  using assms empty_not_allowed [of "runtime bt"]
  by (simp add: upload_bot_files_def Let_def bot_dir_def set_bot_dir_def
      get_bot_storage_path_def)

theorem upload_single_file_without_extension_witness:
  "verify_bot_ownership 1 1 uploaded_state = Inr (hd (bots uploaded_state))
   \<and> sanitize_filename ''Makefile'' = ''Makefile''
   \<and> \<not> str_endswith ''Makefile'' ''.zip''
   \<and> path_suffix ''Makefile'' = []
   \<and> fst (upload_bot_files 1 makefile_upload 1 uploaded_state)
       = Inl (BadRequestException ''File type  not allowed for BotRuntime.PYTHON runtime'')
   \<and> bot_dir (snd (upload_bot_files 1 makefile_upload 1 uploaded_state)) 1 = []"
proof -
  have v: "verify_bot_ownership 1 1 uploaded_state = Inr (hd (bots uploaded_state))"
    unfolding uploaded_state_eq by (simp add: verify_bot_ownership_def find_bot_def)
  have f: "sanitize_filename ''Makefile'' = ''Makefile''"
    by (simp add: utils_defs char_defs)
  have z: "\<not> str_endswith ''Makefile'' ''.zip''"
    by (simp add: str_endswith_def)
  have x: "path_suffix ''Makefile'' = []"
    by (simp add: path_defs rfind_def)
  have r: "runtime (hd (bots uploaded_state)) = PYTHON"
    unfolding uploaded_state_eq by simp
  have c: "clean_dir (bot_dir uploaded_state 1) = []"
    unfolding uploaded_state_eq by (simp add: clean_dir_def bot_dir_def)
  show ?thesis
    using upload_single_file_without_extension
      [of 1 1 uploaded_state "hd (bots uploaded_state)" "''Makefile''" makefile_upload]
      v f z x r c
    by (simp add: makefile_upload_def)
qed

theorem upload_dotfile_rejected:
  "sanitize_filename ''.env'' = ''.env''
   \<and> path_suffix ''.env'' = []
   \<and> fst (upload_bot_files 1 dotfile_upload 1 uploaded_state)
       = Inl (BadRequestException ''File type  not allowed for BotRuntime.PYTHON runtime'')
   \<and> bot_dir (snd (upload_bot_files 1 dotfile_upload 1 uploaded_state)) 1 = []"
  unfolding uploaded_state_eq
  by (simp add: upload_bot_files_def verify_bot_ownership_def dotfile_upload_def utils_defs
      char_defs model_defs path_defs clean_dir_def Let_def)

subsection \<open>What the steps leave alone\<close>

lemma bots_get_bot_storage_path [simp]: "bots (get_bot_storage_path bid s) = bots s"
  by (simp add: get_bot_storage_path_def)

lemma bots_set_bot_dir [simp]: "bots (set_bot_dir bid d s) = bots s"
  by (simp add: set_bot_dir_def)

lemma bots_create_audit_log [simp]: "bots (create_audit_log uid a t d s) = bots s"
  by (simp add: create_audit_log_def)

lemma bots_update_bot [simp]:
  "bots (update_bot bid f s) = map (\<lambda>b. if bot_id b = bid then f b else b) (bots s)"
  by (simp add: update_bot_def)

lemma bots_with_client [simp]: "bots (snd (with_client env s)) = bots s"
  by (simp add: with_client_def split: prod.splits)

lemma bots_create_container [simp]:
  "bots (snd (create_container env bid rt cmd cpu ram s)) = bots s"
  by (simp add: create_container_def with_client_def Let_def
      split: prod.splits sum.splits option.splits)

lemma bots_start_container [simp]: "bots (snd (start_container env cid s)) = bots s"
  by (simp add: start_container_def with_client_def split: prod.splits sum.splits option.splits)

lemma bots_stop_container [simp]: "bots (snd (stop_container env cid s)) = bots s"
  by (simp add: stop_container_def with_client_def split: prod.splits sum.splits option.splits)

lemma bots_restart_container [simp]: "bots (snd (restart_container env cid s)) = bots s"
  by (simp add: restart_container_def with_client_def
      split: prod.splits sum.splits option.splits)

lemma bots_remove_container [simp]: "bots (snd (remove_container env cid s)) = bots s"
  by (simp add: remove_container_def with_client_def split: prod.splits sum.splits option.splits)

lemma bots_get_recent_logs [simp]: "bots (snd (get_recent_logs env cid n s)) = bots s"
  by (simp add: get_recent_logs_def with_client_def split: prod.splits sum.splits)

lemma bots_stream_logs [simp]: "bots (snd (stream_logs env cid s)) = bots s"
  by (simp add: stream_logs_def with_client_def split: prod.splits sum.splits option.splits)

lemma plans_get_bot_storage_path [simp]: "plans (get_bot_storage_path bid s) = plans s"
  by (simp add: get_bot_storage_path_def)

lemma plans_set_bot_dir [simp]: "plans (set_bot_dir bid d s) = plans s"
  by (simp add: set_bot_dir_def)

lemma plans_create_audit_log [simp]: "plans (create_audit_log uid a t d s) = plans s"
  by (simp add: create_audit_log_def)

lemma plans_update_bot [simp]: "plans (update_bot bid f s) = plans s"
  by (simp add: update_bot_def)

lemma plans_with_client [simp]: "plans (snd (with_client env s)) = plans s"
  by (simp add: with_client_def split: prod.splits)

lemma plans_create_container [simp]:
  "plans (snd (create_container env bid rt cmd cpu ram s)) = plans s"
  by (simp add: create_container_def with_client_def Let_def
      split: prod.splits sum.splits option.splits)

lemma plans_start_container [simp]: "plans (snd (start_container env cid s)) = plans s"
  by (simp add: start_container_def with_client_def split: prod.splits sum.splits option.splits)

lemma plans_stop_container [simp]: "plans (snd (stop_container env cid s)) = plans s"
  by (simp add: stop_container_def with_client_def split: prod.splits sum.splits option.splits)

lemma plans_restart_container [simp]: "plans (snd (restart_container env cid s)) = plans s"
  by (simp add: restart_container_def with_client_def
      split: prod.splits sum.splits option.splits)

lemma plans_remove_container [simp]: "plans (snd (remove_container env cid s)) = plans s"
  by (simp add: remove_container_def with_client_def split: prod.splits sum.splits option.splits)

lemma plans_get_recent_logs [simp]: "plans (snd (get_recent_logs env cid n s)) = plans s"
  by (simp add: get_recent_logs_def with_client_def split: prod.splits sum.splits)

lemma plans_stream_logs [simp]: "plans (snd (stream_logs env cid s)) = plans s"
  by (simp add: stream_logs_def with_client_def split: prod.splits sum.splits option.splits)

lemma next_bot_id_get_bot_storage_path [simp]: "next_bot_id (get_bot_storage_path bid s) = next_bot_id s"
  by (simp add: get_bot_storage_path_def)

lemma next_bot_id_set_bot_dir [simp]: "next_bot_id (set_bot_dir bid d s) = next_bot_id s"
  by (simp add: set_bot_dir_def)

lemma next_bot_id_create_audit_log [simp]: "next_bot_id (create_audit_log uid a t d s) = next_bot_id s"
  by (simp add: create_audit_log_def)

lemma next_bot_id_with_client [simp]: "next_bot_id (snd (with_client env s)) = next_bot_id s"
  by (simp add: with_client_def split: prod.splits)

lemma next_bot_id_create_container [simp]:
  "next_bot_id (snd (create_container env bid rt cmd cpu ram s)) = next_bot_id s"
  by (simp add: create_container_def with_client_def Let_def
      split: prod.splits sum.splits option.splits)

lemma next_bot_id_start_container [simp]: "next_bot_id (snd (start_container env cid s)) = next_bot_id s"
  by (simp add: start_container_def with_client_def split: prod.splits sum.splits option.splits)

lemma next_bot_id_stop_container [simp]: "next_bot_id (snd (stop_container env cid s)) = next_bot_id s"
  by (simp add: stop_container_def with_client_def split: prod.splits sum.splits option.splits)

lemma next_bot_id_restart_container [simp]: "next_bot_id (snd (restart_container env cid s)) = next_bot_id s"
  by (simp add: restart_container_def with_client_def
      split: prod.splits sum.splits option.splits)

lemma next_bot_id_remove_container [simp]: "next_bot_id (snd (remove_container env cid s)) = next_bot_id s"
  by (simp add: remove_container_def with_client_def split: prod.splits sum.splits option.splits)

lemma next_bot_id_get_recent_logs [simp]: "next_bot_id (snd (get_recent_logs env cid n s)) = next_bot_id s"
  by (simp add: get_recent_logs_def with_client_def split: prod.splits sum.splits)

lemma next_bot_id_stream_logs [simp]: "next_bot_id (snd (stream_logs env cid s)) = next_bot_id s"
  by (simp add: stream_logs_def with_client_def split: prod.splits sum.splits option.splits)

lemma next_bot_id_update_bot [simp]: "next_bot_id (update_bot bid f s) = next_bot_id s"
  by (simp add: update_bot_def)

lemma bot_dir_get_bot_storage_path [simp]:
  "bot_dir (get_bot_storage_path bid s) b = bot_dir s b"
  by (simp add: bot_dir_def get_bot_storage_path_def)

text \<open>The row a key finds, before and after an update that keeps the key.\<close>

lemma find_update:
  assumes "\<And>b. bot_id (f b) = bot_id b"
  shows "find (\<lambda>b. bot_id b = bid) (map (\<lambda>b. if bot_id b = bid then f b else b) bs)
           = map_option f (find (\<lambda>b. bot_id b = bid) bs)"
  by (induction bs) (simp_all add: assms)

lemma verify_bot_ownership_Inr:
  assumes "verify_bot_ownership bid uid s = Inr bt"
  shows "find_bot bid s = Some bt" and "bot_id bt = bid" and "user_id bt = uid"
    and "bt \<in> set (bots s)"
proof -
  show f: "find_bot bid s = Some bt" and "user_id bt = uid"
    using assms by (auto simp: verify_bot_ownership_def split: option.splits if_splits)
  show "bot_id bt = bid" and "bt \<in> set (bots s)"
    using f by (auto simp: find_bot_def find_Some_iff)
qed

subsection \<open>Failures of the driver during start\<close>

lemma start_failed_result:
  "fst (start_failed bid e s) = Inl (BadRequestException (''Failed to start bot: '' @ exc_str e))"
  by (simp add: start_failed_def)

lemma start_failed_status:
  assumes "find (\<lambda>b. bot_id b = bid) (bots s) = Some b0"
  shows "map_option status (find_bot bid (snd (start_failed bid e s))) = Some CRASHED"
  using assms by (simp add: start_failed_def find_bot_def find_update)

lemma ensure_container_find:
  assumes "find (\<lambda>b. bot_id b = bot_id bt) (bots s) = Some b0"
  shows "\<exists>b1. find (\<lambda>b. bot_id b = bot_id bt) (bots (snd (ensure_container env bt plan s)))
           = Some b1"
proof (cases "truthy (container_id bt)")
  case True
  then show ?thesis using assms by (simp add: ensure_container_def)
next
  case False
  let ?cc = "create_container env (bot_id bt) (runtime bt) (start_cmd bt) (cpu_limit plan)
               (ram_limit plan) s"
  have b: "bots (snd ?cc) = bots s" by simp
  show ?thesis
  proof (cases "fst ?cc")
    case (Inl e)
    then have "snd (ensure_container env bt plan s) = snd ?cc"
      using False by (simp add: ensure_container_def case_prod_beta)
    then show ?thesis using assms b by simp
  next
    case (Inr cid)
    then have "snd (ensure_container env bt plan s)
        = update_bot (bot_id bt) (\<lambda>b. b\<lparr>container_id := Some cid\<rparr>) (snd ?cc)"
      using False by (simp add: ensure_container_def case_prod_beta)
    then show ?thesis using assms b by (simp add: find_update)
  qed
qed

text \<open>
  C3 (amended). For an owned bot whose plan exists and whose artifact directory is
  not empty, a failure of the driver during start marks the bot CRASHED and is
  answered with a \<^verbatim>\<open>BadRequestException\<close> whose detail is
  \<open>Failed to start bot: \<close> followed by the string of the exception at hand. When
  the driver's create raises, or its start raises, that is the driver's exception.
  When the driver's start reports failure, it returns false without a message, and
  the detail is built from the fixed text \<open>Failed to start container\<close>: what the
  runtime said about the failed start is not in the answer.
\<close>

theorem start_bot_driver_failure:
  assumes own: "verify_bot_ownership bid uid s = Inr bt"
    and plan: "find_plan (plan_id bt) s = Some plan"
    and files: "bot_dir s bid \<noteq> []"
  shows
    "(\<not> truthy (container_id bt) \<and>
        fst (create_container env (bot_id bt) (runtime bt) (start_cmd bt) (cpu_limit plan)
               (ram_limit plan) (get_bot_storage_path bid s)) = Inl e
      \<longrightarrow> fst (start_bot env bid uid s)
            = Inl (BadRequestException (''Failed to start bot: '' @ exc_str e))
          \<and> map_option status (find_bot bid (snd (start_bot env bid uid s))) = Some CRASHED)
     \<and> (fst (ensure_container env bt plan (get_bot_storage_path bid s)) = Inr h \<and>
        fst (start_container env (the h)
               (snd (ensure_container env bt plan (get_bot_storage_path bid s)))) = Inl e
      \<longrightarrow> fst (start_bot env bid uid s)
            = Inl (BadRequestException (''Failed to start bot: '' @ exc_str e))
          \<and> map_option status (find_bot bid (snd (start_bot env bid uid s))) = Some CRASHED)
     \<and> (fst (ensure_container env bt plan (get_bot_storage_path bid s)) = Inr h \<and>
        fst (start_container env (the h)
               (snd (ensure_container env bt plan (get_bot_storage_path bid s)))) = Inr False
      \<longrightarrow> fst (start_bot env bid uid s)
            = Inl (BadRequestException ''Failed to start bot: 400: Failed to start container'')
          \<and> map_option status (find_bot bid (snd (start_bot env bid uid s))) = Some CRASHED)"
proof -
  let ?s1 = "get_bot_storage_path bid s"
  let ?ec = "ensure_container env bt plan ?s1"
  note bt = verify_bot_ownership_Inr [OF own]
  have f0: "find (\<lambda>b. bot_id b = bid) (bots ?s1) = Some bt"
    using bt(1) by (simp add: find_bot_def)
  obtain b1 where f1: "find (\<lambda>b. bot_id b = bid) (bots (snd ?ec)) = Some b1"
    using ensure_container_find [of bt ?s1 bt env plan] f0 bt(2) by auto
  have unfold: "start_bot env bid uid s =
      (case fst ?ec of
         Inl e \<Rightarrow> start_failed bid e (snd ?ec)
       | Inr handle \<Rightarrow>
           (case fst (start_container env (the handle) (snd ?ec)) of
              Inl e \<Rightarrow> start_failed bid e (snd (start_container env (the handle) (snd ?ec)))
            | Inr success \<Rightarrow>
                (if \<not> success
                 then start_failed bid (BadRequestException ''Failed to start container'')
                        (snd (start_container env (the handle) (snd ?ec)))
                 else
                   (Inr (bot_response (bt\<lparr>container_id := handle, status := RUNNING\<rparr>)),
                    create_audit_log uid ''bot_start'' (str_int bid) None
                      (update_bot bid (\<lambda>b. b\<lparr>status := RUNNING\<rparr>)
                         (snd (start_container env (the handle) (snd ?ec))))))))"
    using own plan files
    by (auto simp: start_bot_def Let_def case_prod_beta split: sum.splits prod.splits)
  have A: "fst (start_bot env bid uid s)
            = Inl (BadRequestException (''Failed to start bot: '' @ exc_str e))
          \<and> map_option status (find_bot bid (snd (start_bot env bid uid s))) = Some CRASHED"
    if "fst ?ec = Inl e" for e
  proof -
    have eq: "start_bot env bid uid s = start_failed bid e (snd ?ec)"
      unfolding unfold using that by simp
    show ?thesis
      unfolding eq
      using start_failed_result [of bid e "snd ?ec"] start_failed_status [OF f1, of e]
      by blast
  qed
  have B: "fst (start_bot env bid uid s)
            = Inl (BadRequestException (''Failed to start bot: '' @ exc_str e'))
          \<and> map_option status (find_bot bid (snd (start_bot env bid uid s))) = Some CRASHED"
    if "fst ?ec = Inr h" and "(fst (start_container env (the h) (snd ?ec)) = Inl e0 \<and> e' = e0)
          \<or> (fst (start_container env (the h) (snd ?ec)) = Inr False
              \<and> e' = BadRequestException ''Failed to start container'')" for h e0 e'
  proof -
    let ?st = "start_container env (the h) (snd ?ec)"
    have f3: "find (\<lambda>b. bot_id b = bid) (bots (snd ?st)) = Some b1"
      using f1 by simp
    have eq: "start_bot env bid uid s = start_failed bid e' (snd ?st)"
      unfolding unfold using that by auto
    show ?thesis
      unfolding eq
      using start_failed_result [of bid e' "snd ?st"] start_failed_status [OF f3, of e']
      by blast
  qed
  have C: "fst ?ec = Inl e"
    if "\<not> truthy (container_id bt)"
      and "fst (create_container env (bot_id bt) (runtime bt) (start_cmd bt) (cpu_limit plan)
               (ram_limit plan) ?s1) = Inl e"
    using that by (simp add: ensure_container_def case_prod_beta)
  show ?thesis
    using A [OF C] B [of h e e] B [of h e "BadRequestException ''Failed to start container''"]
    by auto
qed

lemma uploaded_state_facts:
  "verify_bot_ownership 1 1 uploaded_state = Inr echo_row"
  "find_plan 1 uploaded_state = Some free_plan"
  "bot_dir uploaded_state 1 = [(''main.py'', RegularFile)]"
  "plan_id echo_row = 1" "bot_id echo_row = 1" "container_id echo_row = None"
  "runtime echo_row = PYTHON" "start_cmd echo_row = None"
  "cpu_limit free_plan = ''0.5''" "ram_limit free_plan = ''256m''"
  unfolding uploaded_state_eq
  by (simp_all add: verify_bot_ownership_def find_bot_def find_plan_def bot_dir_def
      echo_row_def free_plan_def default_plans_def)

lemma create_fails_example:
  "fst (create_container create_fails_env 1 PYTHON None ''0.5'' ''256m''
         (get_bot_storage_path 1 uploaded_state))
     = Inl (BadRequestException ''Failed to create container: no space left on device'')"
  by (simp add: create_container_def with_client_def get_docker_client_def create_fails_env_def
      example_env_def ensure_image_def create_failed_def uploaded_state_eq
      get_bot_storage_path_def Let_def)

lemma start_fails_example:
  "fst (ensure_container start_fails_env echo_row free_plan
         (get_bot_storage_path 1 uploaded_state)) = Inr (Some ''c1'')"
  "fst (start_container start_fails_env ''c1''
         (snd (ensure_container start_fails_env echo_row free_plan
                (get_bot_storage_path 1 uploaded_state)))) = Inr False"
  by (simp_all add: ensure_container_def create_container_def start_container_def
      with_client_def get_docker_client_def start_fails_env_def example_env_def
      example_container_def ensure_image_def echo_row_def free_plan_def uploaded_state_eq
      get_bot_storage_path_def update_bot_def Let_def)

theorem start_bot_driver_failure_witness:
  "verify_bot_ownership 1 1 uploaded_state = Inr echo_row
   \<and> find_plan (plan_id echo_row) uploaded_state = Some free_plan
   \<and> bot_dir uploaded_state 1 \<noteq> []
   \<and> \<not> truthy (container_id echo_row)
   \<and> fst (create_container create_fails_env 1 PYTHON None ''0.5'' ''256m''
            (get_bot_storage_path 1 uploaded_state))
       = Inl (BadRequestException ''Failed to create container: no space left on device'')
   \<and> fst (start_bot create_fails_env 1 1 uploaded_state)
       = Inl (BadRequestException
           ''Failed to start bot: 400: Failed to create container: no space left on device'')
   \<and> map_option status (find_bot 1 (snd (start_bot create_fails_env 1 1 uploaded_state)))
       = Some CRASHED
   \<and> map_option status (find_bot 1 (snd (start_bot start_fails_env 1 1 uploaded_state)))
       = Some CRASHED"
proof -
  have own: "verify_bot_ownership 1 1 uploaded_state = Inr echo_row"
    and plan: "find_plan (plan_id echo_row) uploaded_state = Some free_plan"
    and files: "bot_dir uploaded_state 1 \<noteq> []"
    by (simp_all add: uploaded_state_facts)
  show ?thesis
    using start_bot_driver_failure [OF own plan files, of create_fails_env
        "BadRequestException ''Failed to create container: no space left on device''" None]
      start_bot_driver_failure [OF own plan files, of start_fails_env
        "BadRequestException []" "Some ''c1''"]
      create_fails_example start_fails_example
    by (simp add: uploaded_state_facts)
qed

text \<open>The runtime refuses to start the container and says why; the answer to the
  caller has the fixed text and not the runtime's.\<close>

theorem start_bot_drops_start_message:
  "containers_get start_fails_env ''c1''
     = Inr (example_container\<lparr>c_start := Some (DockerAPIError ''port is already allocated'')\<rparr>)
   \<and> fst (start_bot start_fails_env 1 1 uploaded_state)
       = Inl (BadRequestException ''Failed to start bot: 400: Failed to start container'')
   \<and> \<not> str_contains ''port is already allocated''
         ''Failed to start bot: 400: Failed to start container''"
proof -
  have own: "verify_bot_ownership 1 1 uploaded_state = Inr echo_row"
    and plan: "find_plan (plan_id echo_row) uploaded_state = Some free_plan"
    and files: "bot_dir uploaded_state 1 \<noteq> []"
    by (simp_all add: uploaded_state_facts)
  have "fst (start_bot start_fails_env 1 1 uploaded_state)
       = Inl (BadRequestException ''Failed to start bot: 400: Failed to start container'')"
    using own plan files start_fails_example
    by (simp add: start_bot_def Let_def case_prod_beta start_failed_def)
  moreover have "\<not> str_contains ''port is already allocated''
         ''Failed to start bot: 400: Failed to start container''"
    by (simp add: str_contains_def)
  ultimately show ?thesis
    by (simp add: start_fails_env_def)
qed

subsection \<open>The follow stream and the log broker\<close>

lemma send_text_events:
  "send_text sock txt w = (r, w') \<Longrightarrow> set (fst w') \<subseteq> set (fst w) \<union> range SentText"
  by (auto simp: send_text_def split: prod.splits option.splits)

lemma pump_events:
  "pump sock ls fin w = (r, w') \<Longrightarrow> set (fst w') \<subseteq> set (fst w) \<union> range SentText"
proof (induction ls arbitrary: w)
  case Nil
  then show ?case by auto
next
  case (Cons l ls)
  obtain r1 w1 where s: "send_text sock l w = (r1, w1)"
    by (cases "send_text sock l w") auto
  note e1 = send_text_events [OF s]
  show ?case
  proof (cases r1)
    case None
    then have "pump sock ls fin w1 = (r, w')" using Cons.prems s by simp
    from Cons.IH [OF this] e1 show ?thesis by blast
  next
    case (Some e)
    then have "w' = w1" using Cons.prems s by simp
    then show ?thesis using e1 by simp
  qed
qed

text \<open>
  What the broker does with an error of the pump, in general: in a session that has
  reached the live stream, an error raised while pumping it, by the stream or by a
  send, is reported to the subscriber as one text frame \<open>Error: \<close> followed by
  the error's string, provided that frame can be sent; the session then ends with no
  close frame at all. The handler inside the pump keeps the error from the outer
  handler, the only place that closes with code 1011.
\<close>

lemma pump_error_reported_not_closed:
  assumes auth: "get_current_user_ws auth token = Inr (Some uid)"
    and own: "verify_bot_ownership bid uid s = Inr bt"
    and handle: "truthy (container_id bt)"
    and tail: "get_recent_logs env (the (container_id bt)) 50 s = (Inr recent_logs, s1)"
    and preamble: "(if recent_logs \<noteq> []
                    then send_text sock (recent_logs_frame recent_logs) ([], 0)
                    else (None, ([], 0))) = (None, w1)"
    and run: "stream_logs env (the (container_id bt)) s1 = (run, s2)"
    and err: "pump sock (fst run) (snd run) w1 = (Some e, w2)"
    and report: "send_result sock (snd w2) = None"
  shows "fst (bot_logs_websocket env sock auth token bid s)
           = fst w2 @ [SentText (''Error: '' @ exc_str e)]
         \<and> (\<forall>code. Closed code \<notin> set (fst (bot_logs_websocket env sock auth token bid s)))"
proof -
  have body: "session_body env sock auth token bid s ([], 0)
      = (stream_to_websocket sock run w1, s2)"
    using auth own handle tail preamble run by (simp add: session_body_def)
  have stw: "stream_to_websocket sock run w1
      = (None, (fst w2 @ [SentText (''Error: '' @ exc_str e)], Suc (snd w2)))"
    using err report by (simp add: stream_to_websocket_def send_text_def case_prod_beta)
  have res: "fst (bot_logs_websocket env sock auth token bid s)
      = fst w2 @ [SentText (''Error: '' @ exc_str e)]"
    by (simp add: bot_logs_websocket_def body stw)
  have "set (fst w1) \<subseteq> range SentText"
    using preamble send_text_events [of sock "recent_logs_frame recent_logs" "([], 0)" None w1]
    by (auto split: if_splits)
  then have "set (fst w2) \<subseteq> range SentText"
    using pump_events [OF err] by auto
  then have "\<forall>code. Closed code \<notin> set (fst w2 @ [SentText (''Error: '' @ exc_str e)])"
    by auto
  then show ?thesis using res by simp
qed

lemma running_state_eq:
  "running_state =
     \<lparr>bots = [echo_row\<lparr>container_id := Some ''c1'', status := RUNNING\<rparr>],
      plans = default_plans, next_bot_id = 2,
      audit_logs = [\<lparr>al_user_id = 1, al_action = ''bot_create'', al_target_id = ''1'',
                     al_details = None\<rparr>,
                    \<lparr>al_user_id = 1, al_action = ''bot_upload'', al_target_id = ''1'',
                     al_details = Some ''Uploaded main.py''\<rparr>,
                    \<lparr>al_user_id = 1, al_action = ''bot_start'', al_target_id = ''1'',
                     al_details = None\<rparr>],
      storage = (\<lambda>bid. None)(1 := Some [(''main.py'', RegularFile)]),
      docker_client = True\<rparr>"
  unfolding running_state_def uploaded_state_eq
  by (simp add: start_bot_def verify_bot_ownership_def find_bot_def find_plan_def
      default_plans_def get_bot_storage_path_def bot_dir_def ensure_container_def
      create_container_def start_container_def with_client_def get_docker_client_def
      example_env_def example_container_def ensure_image_def update_bot_def
      create_audit_log_def str_int_def digit_chars_def echo_row_def Let_def)

lemma running_state_facts:
  "verify_bot_ownership 1 1 running_state
     = Inr (echo_row\<lparr>container_id := Some ''c1'', status := RUNNING\<rparr>)"
  "docker_client running_state"
  unfolding running_state_eq
  by (simp_all add: verify_bot_ownership_def find_bot_def echo_row_def)

text \<open>
  How a session ends before the logs: a token that does not decode is reported by
  the outer handler, as the string of the \<^verbatim>\<open>HTTPException\<close>, and closed with
  code 1011; a token of a user who has no row is refused with code 1008, and so is
  a user who does not own the bot.
\<close>

lemma str_nat_401: "str_nat 401 = ''401''"
  by (simp add: str_nat.simps [of 401] str_nat.simps [of 40] digit_chars_def)

lemma session_token_not_decoded:
  "fst (bot_logs_websocket example_env open_socket auth_user1 ''no-token'' 1 running_state)
     = [SentText ''Error: 401: Invalid or expired token'', Closed 1011]"
  by (simp add: bot_logs_websocket_def session_body_def get_current_user_ws_def
      decode_token_def auth_user1_def send_then_close_def send_text_def close_def
      open_socket_def str_nat_401)

lemma session_user_without_row:
  "fst (bot_logs_websocket example_env open_socket auth_stranger ''token-of-user-1'' 1
         running_state)
     = [SentText ''Authentication failed'', Closed 1008]"
  by (simp add: bot_logs_websocket_def session_body_def get_current_user_ws_def
      decode_token_def auth_stranger_def auth_user1_def send_then_close_def send_text_def
      close_def open_socket_def)

lemma session_of_another_user:
  "fst (bot_logs_websocket example_env open_socket auth_user1 ''token-of-user-1'' 1
         (snd (create_bot echo_bot 2 (init_state default_plans))))
     = [SentText (''Authorization failed: 403: You don'' @ [CHR 0x27]
                  @ ''t have access to this bot''), Closed 1008]"
  by (simp add: bot_logs_websocket_def session_body_def get_current_user_ws_def
      decode_token_def auth_user1_def send_then_close_def send_text_def close_def
      open_socket_def create_bot_def echo_bot_def init_state_def default_plans_def utils_defs
      char_defs model_defs user_bot_count_def verify_bot_ownership_def Let_def)

text \<open>
  C8 (the code departs from the claim). The follow stream breaks after the line
  \<open>hi\<close> with an error that is no API error. The subscriber gets the tail, the
  line and one text frame that reports the error, and then nothing: the session is
  not closed with code 1011. Every other path of the session that reports something
  closes with a code of its own; this one returns from the handler inside the pump.
\<close>

theorem broken_stream_session_not_closed:
  "fst (bot_logs_websocket stream_breaks_env open_socket auth_user1 ''token-of-user-1'' 1
         running_state)
     = [SentText (recent_logs_frame ''hi''), SentText ''hi'',
        SentText ''Error: connection reset'']
   \<and> Closed 1011 \<notin> set (fst (bot_logs_websocket stream_breaks_env open_socket auth_user1
                                ''token-of-user-1'' 1 running_state))"
proof -
  have "fst (bot_logs_websocket stream_breaks_env open_socket auth_user1 ''token-of-user-1'' 1
         running_state)
     = [SentText (recent_logs_frame ''hi''), SentText ''hi'',
        SentText ''Error: connection reset'']"
    by (simp add: bot_logs_websocket_def session_body_def running_state_facts auth_user1_def
        get_current_user_ws_def decode_token_def get_recent_logs_def stream_logs_def with_client_def get_docker_client_def
        stream_breaks_env_def example_env_def example_container_def stream_failed_def
        stream_to_websocket_def send_text_def open_socket_def)
  then show ?thesis by simp
qed

lemma pump_error_reported_not_closed_example:
  "get_current_user_ws auth_user1 ''token-of-user-1'' = Inr (Some 1)
   \<and> verify_bot_ownership 1 1 running_state
       = Inr (echo_row\<lparr>container_id := Some ''c1'', status := RUNNING\<rparr>)
   \<and> get_recent_logs stream_times_out_env ''c1'' 50 running_state = (Inr ''hi'', running_state)
   \<and> send_text open_socket (recent_logs_frame ''hi'') ([], 0)
       = (None, ([SentText (recent_logs_frame ''hi'')], 1))
   \<and> stream_logs stream_times_out_env ''c1'' running_state
       = (([], Some (OtherError ''read timed out'')), running_state)
   \<and> pump open_socket [] (Some (OtherError ''read timed out''))
         ([SentText (recent_logs_frame ''hi'')], 1)
       = (Some (OtherError ''read timed out''), ([SentText (recent_logs_frame ''hi'')], 1))
   \<and> send_result open_socket 1 = None
   \<and> fst (bot_logs_websocket stream_times_out_env open_socket auth_user1 ''token-of-user-1'' 1
            running_state)
       = [SentText (recent_logs_frame ''hi''), SentText ''Error: read timed out'']
   \<and> Closed 1011 \<notin> set (fst (bot_logs_websocket stream_times_out_env open_socket auth_user1
                                ''token-of-user-1'' 1 running_state))"
proof -
  let ?bt = "echo_row\<lparr>container_id := Some ''c1'', status := RUNNING\<rparr>"
  let ?w1 = "([SentText (recent_logs_frame ''hi'')], 1::nat)"
  let ?run = "([] :: string list, Some (OtherError ''read timed out''))"
  have auth: "get_current_user_ws auth_user1 ''token-of-user-1'' = Inr (Some 1)"
    by (simp add: get_current_user_ws_def decode_token_def auth_user1_def)
  have own: "verify_bot_ownership 1 1 running_state = Inr ?bt"
    by (rule running_state_facts)
  have handle: "truthy (container_id ?bt)" by simp
  have same: "running_state\<lparr>docker_client := True\<rparr> = running_state"
    unfolding running_state_eq by simp
  have tail: "get_recent_logs stream_times_out_env (the (container_id ?bt)) 50 running_state
      = (Inr ''hi'', running_state)"
    by (simp add: get_recent_logs_def with_client_def get_docker_client_def
        running_state_facts same stream_times_out_env_def example_env_def
        example_container_def)
  have snd1: "send_text open_socket (recent_logs_frame ''hi'') ([], 0) = (None, ?w1)"
    by (simp add: send_text_def open_socket_def)
  have preamble: "(if ''hi'' \<noteq> [] then send_text open_socket (recent_logs_frame ''hi'') ([], 0)
      else (None, ([], 0))) = (None, ?w1)"
    using snd1 by simp
  have run: "stream_logs stream_times_out_env (the (container_id ?bt)) running_state
      = (?run, running_state)"
    by (simp add: stream_logs_def with_client_def get_docker_client_def running_state_facts
        same stream_times_out_env_def example_env_def example_container_def stream_failed_def)
  have err: "pump open_socket (fst ?run) (snd ?run) ?w1
      = (Some (OtherError ''read timed out''), ?w1)"
    by simp
  have report: "send_result open_socket (snd ?w1) = None"
    by (simp add: open_socket_def)
  show ?thesis
    using pump_error_reported_not_closed
      [where auth = auth_user1 and token = "''token-of-user-1''" and sock = open_socket
         and env = stream_times_out_env,
       OF auth own handle tail preamble run err report]
      auth own tail snd1 run err report
    by simp
qed

text \<open>The session reads the runtime through the tail and the follow stream only.\<close>

lemma session_body_cong:
  assumes "\<And>h n s'. get_recent_logs env1 h n s' = get_recent_logs env2 h n s'"
    and "\<And>h s'. stream_logs env1 h s' = stream_logs env2 h s'"
  shows "session_body env1 sock auth token bid s w = session_body env2 sock auth token bid s w"
  by (simp add: session_body_def assms
      cong: option.case_cong sum.case_cong prod.case_cong if_cong)

text \<open>What the follow stream does raise: the error of a client that cannot be
  obtained, at its first step, and any exception of the lookup or of the runtime's
  stream that is no API error, after the lines that came before it.\<close>

lemma stream_logs_without_client:
  assumes "fst (with_client env s) = Inl e"
  shows "fst (stream_logs env cid s) = ([], Some e)"
  using assms by (cases "with_client env s") (simp add: stream_logs_def)

lemma stream_logs_passes_other_errors:
  assumes "fst (with_client env s) = Inr ()" and "\<not> is_APIError e"
  shows "containers_get env cid = Inl e \<Longrightarrow> fst (stream_logs env cid s) = ([], Some e)"
    and "containers_get env cid = Inr c \<Longrightarrow> c_logs_follow c = (ls, Some e)
         \<Longrightarrow> fst (stream_logs env cid s) = (ls, Some e)"
proof -
  have nf: "\<not> is_NotFound e"
    using assms(2) by (cases e) simp_all
  obtain s1 where wc: "with_client env s = (Inr (), s1)"
    using assms(1) by (cases "with_client env s") auto
  show "containers_get env cid = Inl e \<Longrightarrow> fst (stream_logs env cid s) = ([], Some e)"
    using wc nf assms(2) by (simp add: stream_logs_def stream_failed_def)
  show "containers_get env cid = Inr c \<Longrightarrow> c_logs_follow c = (ls, Some e)
         \<Longrightarrow> fst (stream_logs env cid s) = (ls, Some e)"
    using wc nf assms(2) by (simp add: stream_logs_def stream_failed_def)
qed

text \<open>
  C10 (amended). Once the driver has its client, the follow stream does not raise to
  its consumer for a missing sandbox or an API error of the runtime: for a missing
  sandbox it ends with the line \<open>Container not found\<close>, for an API error with one
  line that begins \<open>Error streaming logs:\<close>, and what it raises is never an API
  error. The broker sends these lines as it sends every line, so the frames of a
  session on a missing sandbox (or a failing runtime) are the frames of a session on
  a sandbox that printed the same text. Without a client the stream raises the
  \<^verbatim>\<open>RuntimeError\<close> of \<^verbatim>\<open>get_docker_client\<close>, and an exception that is no
  API error passes through it.
\<close>

theorem stream_logs_errors_in_band:
  assumes client: "fst (with_client env s) = Inr ()"
  shows "(containers_get env cid = Inl (DockerNotFound m)
            \<longrightarrow> fst (stream_logs env cid s) = ([''Container not found''], None))
       \<and> (containers_get env cid = Inl (DockerAPIError m)
            \<longrightarrow> fst (stream_logs env cid s) = ([''Error streaming logs: '' @ m], None))
       \<and> (containers_get env cid = Inr c \<and> c_logs_follow c = (ls, Some (DockerNotFound m))
            \<longrightarrow> fst (stream_logs env cid s) = (ls @ [''Container not found''], None))
       \<and> (containers_get env cid = Inr c \<and> c_logs_follow c = (ls, Some (DockerAPIError m))
            \<longrightarrow> fst (stream_logs env cid s) = (ls @ [''Error streaming logs: '' @ m], None))
       \<and> (snd (fst (stream_logs env cid s)) = Some e \<longrightarrow> \<not> is_APIError e)
       \<and> bot_logs_websocket (env\<lparr>containers_get := (\<lambda>h. Inl (DockerNotFound m))\<rparr>)
            sock auth token bid s
         = bot_logs_websocket
            (env\<lparr>containers_get := (\<lambda>h. Inr (printing_container ''Container not found''
                                                [''Container not found'']))\<rparr>)
            sock auth token bid s
       \<and> bot_logs_websocket (env\<lparr>containers_get := (\<lambda>h. Inl (DockerAPIError m))\<rparr>)
            sock auth token bid s
         = bot_logs_websocket
            (env\<lparr>containers_get := (\<lambda>h. Inr (printing_container
                                                (''Error retrieving logs: '' @ m)
                                                [''Error streaming logs: '' @ m]))\<rparr>)
            sock auth token bid s"
proof -
  obtain s1 where wc: "with_client env s = (Inr (), s1)"
    using client by (cases "with_client env s") auto
  have raised: "\<not> is_APIError e" if "snd (fst (stream_logs env cid s)) = Some e"
    using that wc
    by (auto simp: stream_logs_def stream_failed_def
        split: sum.splits prod.splits option.splits if_splits)
  have wc_upd: "\<And>g s'. with_client (env\<lparr>containers_get := g\<rparr>) s' = with_client env s'"
    by (simp add: with_client_def get_docker_client_def)
  have logs_nf: "\<And>h n s'. get_recent_logs
        (env\<lparr>containers_get := (\<lambda>h. Inl (DockerNotFound m))\<rparr>) h n s'
      = get_recent_logs
        (env\<lparr>containers_get := (\<lambda>h. Inr (printing_container ''Container not found''
                                            [''Container not found'']))\<rparr>) h n s'"
    by (simp add: get_recent_logs_def wc_upd printing_container_def
        cong: prod.case_cong sum.case_cong)
  have stream_nf: "\<And>h s'. stream_logs
        (env\<lparr>containers_get := (\<lambda>h. Inl (DockerNotFound m))\<rparr>) h s'
      = stream_logs
        (env\<lparr>containers_get := (\<lambda>h. Inr (printing_container ''Container not found''
                                            [''Container not found'']))\<rparr>) h s'"
    by (simp add: stream_logs_def wc_upd printing_container_def stream_failed_def
        cong: prod.case_cong sum.case_cong)
  have logs_api: "\<And>h n s'. get_recent_logs
        (env\<lparr>containers_get := (\<lambda>h. Inl (DockerAPIError m))\<rparr>) h n s'
      = get_recent_logs
        (env\<lparr>containers_get := (\<lambda>h. Inr (printing_container
                                            (''Error retrieving logs: '' @ m)
                                            [''Error streaming logs: '' @ m]))\<rparr>) h n s'"
    by (simp add: get_recent_logs_def wc_upd printing_container_def
        cong: prod.case_cong sum.case_cong)
  have stream_api: "\<And>h s'. stream_logs
        (env\<lparr>containers_get := (\<lambda>h. Inl (DockerAPIError m))\<rparr>) h s'
      = stream_logs
        (env\<lparr>containers_get := (\<lambda>h. Inr (printing_container
                                            (''Error retrieving logs: '' @ m)
                                            [''Error streaming logs: '' @ m]))\<rparr>) h s'"
    by (simp add: stream_logs_def wc_upd printing_container_def stream_failed_def
        cong: prod.case_cong sum.case_cong)
  have same_nf: "bot_logs_websocket (env\<lparr>containers_get := (\<lambda>h. Inl (DockerNotFound m))\<rparr>)
            sock auth token bid s
         = bot_logs_websocket
            (env\<lparr>containers_get := (\<lambda>h. Inr (printing_container ''Container not found''
                                                [''Container not found'']))\<rparr>)
            sock auth token bid s"
    by (simp add: bot_logs_websocket_def session_body_cong [OF logs_nf stream_nf])
  have same_api: "bot_logs_websocket (env\<lparr>containers_get := (\<lambda>h. Inl (DockerAPIError m))\<rparr>)
            sock auth token bid s
         = bot_logs_websocket
            (env\<lparr>containers_get := (\<lambda>h. Inr (printing_container
                                                (''Error retrieving logs: '' @ m)
                                                [''Error streaming logs: '' @ m]))\<rparr>)
            sock auth token bid s"
    by (simp add: bot_logs_websocket_def session_body_cong [OF logs_api stream_api])
  show ?thesis
    using wc raised same_nf same_api
    by (simp add: stream_logs_def stream_failed_def)
qed

text \<open>Two runs in which the stream raises to its consumer: no client can be
  constructed, so its first step raises; and, with a client, the runtime's stream
  breaks after one line with an exception that is no API error.\<close>

theorem stream_logs_raises:
  "fst (stream_logs no_docker_env ''c1'' (init_state default_plans))
     = ([], Some (RuntimeError ''Docker service unavailable: socket missing''))
   \<and> fst (stream_logs stream_breaks_env ''c1'' running_state)
     = ([''hi''], Some (OtherError ''connection reset''))"
  by (simp add: stream_logs_def with_client_def get_docker_client_def no_docker_env_def
      stream_breaks_env_def example_env_def example_container_def init_state_def
      stream_failed_def running_state_facts)

theorem stream_logs_errors_in_band_witness:
  "fst (with_client example_env (init_state default_plans)) = Inr ()
   \<and> containers_get example_env ''gone'' = Inl (DockerNotFound ''No such container'')
   \<and> fst (stream_logs example_env ''gone'' (init_state default_plans))
       = ([''Container not found''], None)
   \<and> fst (with_client api_error_env (init_state default_plans)) = Inr ()
   \<and> containers_get api_error_env ''c1'' = Inl (DockerAPIError ''500 Server Error'')
   \<and> fst (stream_logs api_error_env ''c1'' (init_state default_plans))
       = ([''Error streaming logs: 500 Server Error''], None)"
proof -
  have c1: "fst (with_client example_env (init_state default_plans)) = Inr ()"
    and c2: "fst (with_client api_error_env (init_state default_plans)) = Inr ()"
    by (simp_all add: with_client_def get_docker_client_def example_env_def api_error_env_def
        init_state_def)
  have g1: "containers_get example_env ''gone'' = Inl (DockerNotFound ''No such container'')"
    and g2: "containers_get api_error_env ''c1'' = Inl (DockerAPIError ''500 Server Error'')"
    by (simp_all add: example_env_def api_error_env_def)
  show ?thesis
    using stream_logs_errors_in_band [OF c1, of "''gone''" "''No such container''"]
      stream_logs_errors_in_band [OF c2, of "''c1''" "''500 Server Error''"] c1 c2 g1 g2
    by simp
qed

subsection \<open>One request\<close>

lemma transition_create_bot: "transition s (snd (create_bot bot_data uid s))"
proof (cases "fst (create_bot bot_data uid s)")
  case (Inl e)
  then have "snd (create_bot bot_data uid s) = s"
    by (auto simp: create_bot_def Let_def split: if_splits option.splits)
  then show ?thesis by (simp add: transition.same)
next
  case (Inr r)
  then obtain plan where p: "find_plan (bc_plan_id bot_data) s = Some plan"
      and q: "\<not> user_bot_count uid s \<ge> max_bots plan"
    by (auto simp: create_bot_def Let_def split: if_splits option.splits)
  let ?b = "\<lparr>bot_id = next_bot_id s, user_id = uid, plan_id = bc_plan_id bot_data,
             runtime = bc_runtime bot_data, bot_name = bc_name bot_data, container_id = None,
             status = CREATED, start_cmd = bc_start_cmd bot_data, source_type = None\<rparr>"
  have "bots (snd (create_bot bot_data uid s)) = bots s @ [?b]"
    and "next_bot_id (snd (create_bot bot_data uid s)) = next_bot_id s + 1"
    and "plans (snd (create_bot bot_data uid s)) = plans s"
    using Inr p by (auto simp: create_bot_def Let_def split: if_splits)
  then show ?thesis
    using p q by (intro transition.insert [where b = ?b and p = plan])
      (simp_all add: user_bot_count_def)
qed

lemma transition_upload_bot_files: "transition s (snd (upload_bot_files bid file uid s))"
proof (cases "verify_bot_ownership bid uid s")
  case (Inl e)
  then show ?thesis by (simp add: upload_bot_files_def transition.same)
next
  case (Inr bt)
  note bt = verify_bot_ownership_Inr [OF Inr]
  let ?s' = "snd (upload_bot_files bid file uid s)"
  have np: "next_bot_id ?s' = next_bot_id s" "plans ?s' = plans s"
    using Inr by (auto simp: upload_bot_files_def Let_def split: option.splits prod.splits)
  have "bots ?s' = bots s
      \<or> (\<exists>t. bots ?s' = map (\<lambda>b. if bot_id b = bid then b\<lparr>source_type := Some t\<rparr> else b)
                          (bots s))"
    using Inr by (auto simp: upload_bot_files_def Let_def split: option.splits prod.splits)
  then show ?thesis
  proof
    assume "bots ?s' = bots s"
    then show ?thesis using np by (simp add: transition.same)
  next
    assume "\<exists>t. bots ?s' = map (\<lambda>b. if bot_id b = bid then b\<lparr>source_type := Some t\<rparr> else b)
                          (bots s)"
    then obtain t where
      "bots ?s' = map (\<lambda>b. if bot_id b = bid then b\<lparr>source_type := Some t\<rparr> else b) (bots s)"
      by blast
    then show ?thesis
      using np bt(1)
      by (intro transition.update [where bt = bt and f = "\<lambda>b. b\<lparr>source_type := Some t\<rparr>"])
        (simp_all add: keeps_def handle_kept_def)
  qed
qed

lemma map_update_twice:
  assumes "\<And>b. bot_id (h b) = bot_id b"
  shows "map (\<lambda>b. if bot_id b = bid then g b else b)
           (map (\<lambda>b. if bot_id b = bid then h b else b) bs)
         = map (\<lambda>b. if bot_id b = bid then g (h b) else b) bs"
  by (induction bs) (simp_all add: assms)

lemma ensure_container_tables [simp]:
  "plans (snd (ensure_container env bt plan s)) = plans s"
  "next_bot_id (snd (ensure_container env bt plan s)) = next_bot_id s"
  by (simp_all add: ensure_container_def case_prod_beta split: sum.splits)

lemma ensure_container_bots:
  "(bots (snd (ensure_container env bt plan s)) = bots s
      \<and> (truthy (container_id bt) \<or> (\<exists>e. fst (ensure_container env bt plan s) = Inl e)))
   \<or> (\<exists>cid. bots (snd (ensure_container env bt plan s))
         = map (\<lambda>b. if bot_id b = bot_id bt then b\<lparr>container_id := Some cid\<rparr> else b) (bots s))"
proof (cases "truthy (container_id bt)")
  case True
  then show ?thesis by (simp add: ensure_container_def)
next
  case False
  let ?cc = "create_container env (bot_id bt) (runtime bt) (start_cmd bt) (cpu_limit plan)
               (ram_limit plan) s"
  show ?thesis
  proof (cases "fst ?cc")
    case (Inl e)
    then show ?thesis using False by (simp add: ensure_container_def case_prod_beta)
  next
    case (Inr cid)
    then have "bots (snd (ensure_container env bt plan s))
        = map (\<lambda>b. if bot_id b = bot_id bt then b\<lparr>container_id := Some cid\<rparr> else b) (bots s)"
      using False by (simp add: ensure_container_def case_prod_beta)
    then show ?thesis by blast
  qed
qed

lemma start_bot_tables:
  "plans (snd (start_bot env bid uid s)) = plans s"
  "next_bot_id (snd (start_bot env bid uid s)) = next_bot_id s"
  by (simp_all add: start_bot_def start_failed_def Let_def case_prod_beta
      split: sum.splits option.splits)

lemma start_bot_bots:
  assumes own: "verify_bot_ownership bid uid s = Inr bt"
    and plan: "find_plan (plan_id bt) s = Some plan"
    and files: "bot_dir s bid \<noteq> []"
  shows "\<exists>g. (g = (\<lambda>b. b\<lparr>status := CRASHED\<rparr>)
            \<or> (g = (\<lambda>b. b\<lparr>status := RUNNING\<rparr>)
                \<and> (\<exists>h. fst (ensure_container env bt plan (get_bot_storage_path bid s)) = Inr h)))
         \<and> bots (snd (start_bot env bid uid s))
           = map (\<lambda>b. if bot_id b = bid then g b else b)
               (bots (snd (ensure_container env bt plan (get_bot_storage_path bid s))))"
  using own plan files
  by (auto simp: start_bot_def start_failed_def Let_def case_prod_beta split: sum.splits)

lemma transition_start_bot: "transition s (snd (start_bot env bid uid s))"
proof (cases "verify_bot_ownership bid uid s")
  case (Inl e)
  then show ?thesis by (simp add: start_bot_def transition.same)
next
  case (Inr bt)
  note bt = verify_bot_ownership_Inr [OF Inr]
  let ?s' = "snd (start_bot env bid uid s)"
  let ?ec = "ensure_container env bt plan (get_bot_storage_path bid s)"
  note tabs = start_bot_tables [of env bid uid s]
  show ?thesis
  proof (cases "find_plan (plan_id bt) s")
    case None
    then show ?thesis using Inr by (simp add: start_bot_def transition.same)
  next
    case (Some plan)
    show ?thesis
    proof (cases "bot_dir s bid = []")
      case True
      then show ?thesis using Inr Some by (simp add: start_bot_def Let_def transition.same)
    next
      case False
      let ?ec = "ensure_container env bt plan (get_bot_storage_path bid s)"
      obtain g where g: "g = (\<lambda>b. b\<lparr>status := CRASHED\<rparr>)
            \<or> (g = (\<lambda>b. b\<lparr>status := RUNNING\<rparr>) \<and> (\<exists>h. fst ?ec = Inr h))"
        and b: "bots ?s' = map (\<lambda>b. if bot_id b = bid then g b else b) (bots (snd ?ec))"
        using start_bot_bots [OF Inr Some False, of env] by blast
      have kg: "keeps g" using g by (auto simp: keeps_def)
      from ensure_container_bots [of env bt plan "get_bot_storage_path bid s"]
      show ?thesis
      proof (elim disjE conjE exE)
        assume e: "bots (snd ?ec) = bots (get_bot_storage_path bid s)"
          and t: "truthy (container_id bt)"
        have "handle_kept g bt" using g t by (cases "container_id bt") (auto simp: handle_kept_def)
        then show ?thesis
          using b e tabs bt(1) kg
          by (intro transition.update [where bt = bt and f = g and bid = bid]) simp_all
      next
        fix e0 assume e: "bots (snd ?ec) = bots (get_bot_storage_path bid s)"
          and t: "fst ?ec = Inl e0"
        have "handle_kept g bt" using g t by (auto simp: handle_kept_def)
        then show ?thesis
          using b e tabs bt(1) kg
          by (intro transition.update [where bt = bt and f = g and bid = bid]) simp_all
      next
        fix cid assume e: "bots (snd ?ec)
            = map (\<lambda>b. if bot_id b = bot_id bt then b\<lparr>container_id := Some cid\<rparr> else b)
                (bots (get_bot_storage_path bid s))"
        have "bots ?s' = map (\<lambda>b. if bot_id b = bid then g (b\<lparr>container_id := Some cid\<rparr>) else b)
                (bots s)"
          unfolding b e using bt(2) by (simp add: map_update_twice)
        moreover have "keeps (\<lambda>b. g (b\<lparr>container_id := Some cid\<rparr>))"
          using g by (auto simp: keeps_def)
        moreover have "handle_kept (\<lambda>b. g (b\<lparr>container_id := Some cid\<rparr>)) bt"
          using g by (auto simp: handle_kept_def)
        ultimately show ?thesis
          using tabs bt(1)
          by (intro transition.update
              [where bt = bt and f = "\<lambda>b. g (b\<lparr>container_id := Some cid\<rparr>)" and bid = bid])
            simp_all
      qed
    qed
  qed
qed

lemma transition_stop_bot: "transition s (snd (stop_bot env bid uid s))"
proof (cases "verify_bot_ownership bid uid s")
  case (Inl e)
  then show ?thesis by (simp add: stop_bot_def transition.same)
next
  case (Inr bt)
  note bt = verify_bot_ownership_Inr [OF Inr]
  let ?s' = "snd (stop_bot env bid uid s)"
  have np: "next_bot_id ?s' = next_bot_id s" "plans ?s' = plans s"
    using Inr by (auto simp: stop_bot_def Let_def case_prod_beta split: sum.splits)
  have "bots ?s' = bots s
      \<or> (truthy (container_id bt)
          \<and> bots ?s' = map (\<lambda>b. if bot_id b = bid then b\<lparr>status := STOPPED\<rparr> else b) (bots s))"
    using Inr by (auto simp: stop_bot_def Let_def case_prod_beta split: sum.splits)
  then show ?thesis
  proof (elim disjE conjE)
    assume "bots ?s' = bots s"
    then show ?thesis using np by (simp add: transition.same)
  next
    assume t: "truthy (container_id bt)"
      and "bots ?s' = map (\<lambda>b. if bot_id b = bid then b\<lparr>status := STOPPED\<rparr> else b) (bots s)"
    moreover have "handle_kept (\<lambda>b. b\<lparr>status := STOPPED\<rparr>) bt"
      using t by (cases "container_id bt") (auto simp: handle_kept_def)
    ultimately show ?thesis
      using np bt(1)
      by (intro transition.update [where bt = bt and f = "\<lambda>b. b\<lparr>status := STOPPED\<rparr>"])
        (simp_all add: keeps_def)
  qed
qed

lemma transition_restart_bot: "transition s (snd (restart_bot env bid uid s))"
proof (cases "verify_bot_ownership bid uid s")
  case (Inl e)
  then show ?thesis by (simp add: restart_bot_def transition.same)
next
  case (Inr bt)
  note bt = verify_bot_ownership_Inr [OF Inr]
  let ?s' = "snd (restart_bot env bid uid s)"
  have np: "next_bot_id ?s' = next_bot_id s" "plans ?s' = plans s"
    using Inr by (auto simp: restart_bot_def Let_def case_prod_beta split: sum.splits)
  have "bots ?s' = bots s
      \<or> (truthy (container_id bt)
          \<and> bots ?s' = map (\<lambda>b. if bot_id b = bid then b\<lparr>status := RUNNING\<rparr> else b) (bots s))"
    using Inr by (auto simp: restart_bot_def Let_def case_prod_beta split: sum.splits)
  then show ?thesis
  proof (elim disjE conjE)
    assume "bots ?s' = bots s"
    then show ?thesis using np by (simp add: transition.same)
  next
    assume t: "truthy (container_id bt)"
      and "bots ?s' = map (\<lambda>b. if bot_id b = bid then b\<lparr>status := RUNNING\<rparr> else b) (bots s)"
    moreover have "handle_kept (\<lambda>b. b\<lparr>status := RUNNING\<rparr>) bt"
      using t by (cases "container_id bt") (auto simp: handle_kept_def)
    ultimately show ?thesis
      using np bt(1)
      by (intro transition.update [where bt = bt and f = "\<lambda>b. b\<lparr>status := RUNNING\<rparr>"])
        (simp_all add: keeps_def)
  qed
qed

lemma transition_delete_bot: "transition s (snd (delete_bot env bid uid s))"
proof -
  let ?s' = "snd (delete_bot env bid uid s)"
  have np: "next_bot_id ?s' = next_bot_id s" "plans ?s' = plans s"
    by (auto simp: delete_bot_def Let_def case_prod_beta split: sum.splits)
  have "bots ?s' = bots s \<or> bots ?s' = filter (\<lambda>b. bot_id b \<noteq> bid) (bots s)"
    by (auto simp: delete_bot_def Let_def case_prod_beta split: sum.splits)
  then show ?thesis
    using np by (auto intro: transition.same transition.remove)
qed

lemma transition_bot_logs_websocket:
  "transition s (snd (bot_logs_websocket env sock auth token bid s))"
proof -
  have "bots (snd (session_body env sock auth token bid s w)) = bots s
      \<and> next_bot_id (snd (session_body env sock auth token bid s w)) = next_bot_id s
      \<and> plans (snd (session_body env sock auth token bid s w)) = plans s" for w
    by (auto simp: session_body_def case_prod_beta split: option.splits sum.splits)
  then show ?thesis
    by (intro transition.same)
      (auto simp: bot_logs_websocket_def case_prod_beta split: option.splits)
qed

subsection \<open>The invariant\<close>

lemma find_SomeD: "find P xs = Some x \<Longrightarrow> x \<in> set xs \<and> P x"
  by (induction xs) (auto split: if_splits)

lemma find_unique:
  assumes "distinct (map bot_id bs)" and "find (\<lambda>b. bot_id b = bid) bs = Some bt"
    and "b \<in> set bs" and "bot_id b = bid"
  shows "b = bt"
proof -
  have "bt \<in> set bs" and "bot_id bt = bid"
    using assms(2) by (auto simp: find_Some_iff)
  then show ?thesis
    using assms(1,3,4) by (metis distinct_map inj_onD)
qed

lemma quota_ok_map:
  assumes "\<And>b. user_id (g b) = user_id b" and "\<And>b. plan_id (g b) = plan_id b"
  shows "quota_ok ps (map g bs) = quota_ok ps bs"
  by (induction bs) (auto simp: assms comp_def split: option.splits)

lemma count_filter_le: "length (filter P (filter Q bs)) \<le> length (filter P bs)"
  by (induction bs) auto

lemma quota_ok_filter: "quota_ok ps bs \<Longrightarrow> quota_ok ps (filter Q bs)"
proof (induction bs)
  case Nil
  then show ?case by simp
next
  case (Cons b bs)
  have "length (filter (\<lambda>x. user_id x = user_id b) (filter Q bs))
      \<le> length (filter (\<lambda>x. user_id x = user_id b) bs)"
    by (rule count_filter_le)
  then show ?case
    using Cons by (auto split: option.splits)
qed

lemma invariant_init: "invariant (init_state ps)"
  by (simp add: invariant_def ids_ok_def init_state_def)

lemma invariant_transition:
  assumes inv: "invariant s" and tr: "transition s s'"
  shows "invariant s'"
proof -
  from inv have dist: "distinct (map bot_id (bots s))"
    and below: "list_all (\<lambda>b. bot_id b < next_bot_id s) (bots s)"
    and hdl: "list_all handle_ok (bots s)"
    and quota: "quota_ok (plans s) (rev (bots s))"
    by (simp_all add: invariant_def ids_ok_def)
  from tr show ?thesis
  proof cases
    case same
    then show ?thesis using inv by (simp add: invariant_def ids_ok_def)
  next
    case (insert b p)
    have fresh: "bot_id b \<notin> set (map bot_id (bots s))"
      using below insert(4) by (auto simp: list_all_iff)
    have i: "ids_ok s'"
      using dist below fresh insert(1,2,4) by (auto simp: ids_ok_def list_all_iff)
    have h: "list_all handle_ok (bots s')"
      using hdl insert(1,5,6) by (simp add: handle_ok_def)
    have "length (filter (\<lambda>x. user_id x = user_id b) (rev (bots s)))
        = length (filter (\<lambda>x. user_id x = user_id b) (bots s))"
      by (simp only: rev_filter [symmetric] length_rev)
    then have q: "quota_ok (plans s') (rev (bots s'))"
      using quota insert(1,3,7,8) by (simp add: find_plan_def)
    show ?thesis using i h q by (simp add: invariant_def)
  next
    case (update bid f bt)
    let ?g = "\<lambda>b. if bot_id b = bid then f b else b"
    have kg: "\<And>b. bot_id (?g b) = bot_id b" "\<And>b. user_id (?g b) = user_id b"
      "\<And>b. plan_id (?g b) = plan_id b"
      using update(5) by (simp_all add: keeps_def)
    have ids: "map bot_id (bots s') = map bot_id (bots s)"
      unfolding update(1) using kg(1) by (simp add: comp_def)
    have i: "ids_ok s'"
      using dist below ids update(2)
      by (simp add: ids_ok_def list_all_iff) (metis (no_types, lifting) image_iff image_set)
    have "handle_ok (?g b)" if "b \<in> set (bots s)" for b
    proof (cases "bot_id b = bid")
      case False
      then show ?thesis using hdl that by (simp add: list_all_iff)
    next
      case True
      then have "b = bt"
        using find_unique [OF dist _ that] update(4) by (simp add: find_bot_def)
      moreover have "handle_ok bt"
        using hdl that \<open>b = bt\<close> by (simp add: list_all_iff)
      ultimately show ?thesis
        using update(6) True by (auto simp: handle_ok_def handle_kept_def)
    qed
    then have "\<forall>b\<in>set (bots s). handle_ok (?g b)"
      by blast
    then have h: "list_all handle_ok (bots s')"
      unfolding update(1) list_all_iff set_map by blast
    have q: "quota_ok (plans s') (rev (bots s'))"
      unfolding update(1,3)
      using quota quota_ok_map [of ?g "plans s" "rev (bots s)", OF kg(2,3)]
      by (simp add: rev_map)
    show ?thesis using i h q by (simp add: invariant_def)
  next
    case (remove bid)
    have i: "ids_ok s'"
      using dist below remove(1,2) by (simp add: ids_ok_def list_all_iff distinct_map_filter)
    have h: "list_all handle_ok (bots s')"
      using hdl remove(1) by (simp add: list_all_iff)
    have q: "quota_ok (plans s') (rev (bots s'))"
      unfolding remove(1,3) rev_filter using quota by (rule quota_ok_filter)
    show ?thesis using i h q by (simp add: invariant_def)
  qed
qed

lemma reachable_invariant: "reachable s \<Longrightarrow> invariant s"
proof (induction rule: reachable.induct)
  case (init ps)
  show ?case by (rule invariant_init)
next
  case (create s bot_data uid)
  then show ?case by (blast intro: invariant_transition transition_create_bot)
next
  case (upload s bid up uid)
  then show ?case by (blast intro: invariant_transition transition_upload_bot_files)
next
  case (start s env bid uid)
  then show ?case by (blast intro: invariant_transition transition_start_bot)
next
  case (stop s env bid uid)
  then show ?case by (blast intro: invariant_transition transition_stop_bot)
next
  case (restart s env bid uid)
  then show ?case by (blast intro: invariant_transition transition_restart_bot)
next
  case (delete s env bid uid)
  then show ?case by (blast intro: invariant_transition transition_delete_bot)
next
  case (logs s env sock auth token bid)
  then show ?case by (blast intro: invariant_transition transition_bot_logs_websocket)
qed

text \<open>What the quota says about a user's newest bot.\<close>

lemma quota_ok_newest:
  assumes "quota_ok ps bs" and "find (\<lambda>b. user_id b = uid) bs = Some b"
  shows "\<exists>p. find (\<lambda>p. p_id p = plan_id b) ps = Some p
              \<and> int (length (filter (\<lambda>x. user_id x = uid) bs)) \<le> max_bots p"
  using assms
proof (induction bs)
  case Nil
  then show ?case by simp
next
  case (Cons a bs)
  show ?case
  proof (cases "user_id a = uid")
    case True
    then have "b = a" using Cons.prems(2) by simp
    then show ?thesis
      using Cons.prems(1) True by (auto split: option.splits)
  next
    case False
    then show ?thesis
      using Cons by simp
  qed
qed

subsection \<open>The handle and the lifecycle state\<close>

lemma reachable_uploaded_state: "reachable uploaded_state"
  unfolding uploaded_state_def by (intro reachable.upload reachable.create reachable.init)

lemma reachable_crashed_state: "reachable crashed_state"
  unfolding crashed_state_def by (intro reachable.start reachable_uploaded_state)

lemma reachable_two_bots_state: "reachable two_bots_state"
  unfolding two_bots_state_def by (intro reachable.create reachable.init)

text \<open>
  A start that fails in the creation of the container, for a bot that has no handle,
  leaves the row as it was but for the state, which is CRASHED: the handle is still
  null.
\<close>

lemma start_bot_failed_create:
  assumes own: "verify_bot_ownership bid uid s = Inr bt"
    and plan: "find_plan (plan_id bt) s = Some plan"
    and files: "bot_dir s bid \<noteq> []"
    and handle: "container_id bt = None"
    and fail: "fst (create_container env (bot_id bt) (runtime bt) (start_cmd bt)
                      (cpu_limit plan) (ram_limit plan) (get_bot_storage_path bid s)) = Inl e"
  shows "find_bot bid (snd (start_bot env bid uid s)) = Some (bt\<lparr>status := CRASHED\<rparr>)"
    and "container_id (bt\<lparr>status := CRASHED\<rparr>) = None"
proof -
  let ?s1 = "get_bot_storage_path bid s"
  let ?cc = "create_container env (bot_id bt) (runtime bt) (start_cmd bt) (cpu_limit plan)
               (ram_limit plan) ?s1"
  note bt = verify_bot_ownership_Inr [OF own]
  have ec: "ensure_container env bt plan ?s1 = (Inl e, snd ?cc)"
    using handle fail by (simp add: ensure_container_def case_prod_beta)
  have st: "snd (start_bot env bid uid s) = update_bot bid (\<lambda>b. b\<lparr>status := CRASHED\<rparr>) (snd ?cc)"
    using own plan files by (simp add: start_bot_def Let_def ec start_failed_def)
  have "find (\<lambda>b. bot_id b = bid) (bots (snd ?cc)) = Some bt"
    using bt(1) by (simp add: find_bot_def)
  then show "find_bot bid (snd (start_bot env bid uid s)) = Some (bt\<lparr>status := CRASHED\<rparr>)"
    unfolding st by (simp add: find_bot_def find_update)
  show "container_id (bt\<lparr>status := CRASHED\<rparr>) = None"
    using handle by simp
qed

text \<open>
  C1 (amended). In every state the system can reach, a bot whose sandbox handle is
  null is CREATED or CRASHED: no operation leaves a bot without a handle RUNNING or
  STOPPED, and a start that fails before a handle is persisted leaves it CRASHED.
\<close>

theorem null_handle_created_or_crashed:
  assumes "reachable s" and "b \<in> set (bots s)" and "container_id b = None"
  shows "status b = CREATED \<or> status b = CRASHED"
proof -
  have "list_all handle_ok (bots s)"
    using reachable_invariant [OF assms(1)] by (simp add: invariant_def)
  then show ?thesis
    using assms(2,3) by (simp add: list_all_iff handle_ok_def)
qed

theorem null_handle_created_or_crashed_witness:
  "reachable uploaded_state \<and> echo_row \<in> set (bots uploaded_state)
   \<and> container_id echo_row = None
   \<and> (status echo_row = CREATED \<or> status echo_row = CRASHED)"
proof -
  have m: "echo_row \<in> set (bots uploaded_state)"
    unfolding uploaded_state_eq by (simp add: echo_row_def)
  have n: "container_id echo_row = None"
    by (simp add: echo_row_def)
  show ?thesis
    using null_handle_created_or_crashed [OF reachable_uploaded_state m n]
      reachable_uploaded_state m n
    by simp
qed

lemma crashed_state_bots: "bots crashed_state = [echo_row\<lparr>status := CRASHED\<rparr>]"
proof -
  have own: "verify_bot_ownership 1 1 uploaded_state = Inr echo_row"
    and plan: "find_plan (plan_id echo_row) uploaded_state = Some free_plan"
    and files: "bot_dir uploaded_state 1 \<noteq> []"
    by (simp_all add: uploaded_state_facts)
  have ec: "ensure_container create_fails_env echo_row free_plan
        (get_bot_storage_path 1 uploaded_state)
      = (Inl (BadRequestException ''Failed to create container: no space left on device''),
         snd (create_container create_fails_env 1 PYTHON None ''0.5'' ''256m''
                (get_bot_storage_path 1 uploaded_state)))"
    using create_fails_example
    by (simp add: ensure_container_def uploaded_state_facts case_prod_beta)
  have "bots crashed_state
      = map (\<lambda>b. if bot_id b = 1 then b\<lparr>status := CRASHED\<rparr> else b) (bots uploaded_state)"
    unfolding crashed_state_def using own plan files
    by (simp add: start_bot_def Let_def ec start_failed_def)
  then show ?thesis
    unfolding uploaded_state_eq by (simp add: echo_row_def)
qed

text \<open>The runtime cannot create the container: the start fails before there is a
  handle, and the bot is CRASHED, not CREATED.\<close>

theorem failed_create_null_handle_crashed:
  "reachable crashed_state
   \<and> map container_id (bots crashed_state) = [None]
   \<and> map status (bots crashed_state) = [CRASHED]"
  using reachable_crashed_state by (simp add: crashed_state_bots echo_row_def)

subsection \<open>The quota\<close>

lemma two_bots_state_bots:
  "bots two_bots_state =
     [\<lparr>bot_id = 1, user_id = 1, plan_id = 1, runtime = PYTHON, bot_name = ''echo'',
       container_id = None, status = CREATED, start_cmd = None, source_type = None\<rparr>,
      \<lparr>bot_id = 2, user_id = 1, plan_id = 2, runtime = NODE, bot_name = ''second'',
       container_id = None, status = CREATED, start_cmd = None, source_type = None\<rparr>]"
  "plans two_bots_state = default_plans"
  unfolding two_bots_state_def created_state_eq
  by (simp_all add: create_bot_def second_bot_def default_plans_def utils_defs char_defs
      model_defs user_bot_count_def Let_def)

text \<open>
  C5 (amended). A plan is chosen for each bot when it is created; a user has no plan.
  At all times, a user who owns bots owns at most as many as the plan of their most
  recently created bot allows, and so at most \<open>max_bots\<close> of a plan \<open>P\<close> when all
  their bots were created under \<open>P\<close>. The create operation rejects with Conflict
  when the owner's bot count has reached \<open>max_bots\<close> of the plan requested, once
  the name and the start command have passed validation and that plan exists.
\<close>

theorem quota_of_requested_plan:
  assumes "reachable s"
  shows "(newest_bot uid s = Some b
            \<longrightarrow> (\<exists>p. find_plan (plan_id b) s = Some p \<and> user_bot_count uid s \<le> max_bots p))
       \<and> (list_all (\<lambda>x. user_id x = uid \<longrightarrow> plan_id x = pid) (bots s)
            \<and> 0 < user_bot_count uid s \<and> find_plan pid s = Some p'
            \<longrightarrow> user_bot_count uid s \<le> max_bots p')
       \<and> (3 \<le> length (bc_name bot_data) \<and> length (bc_name bot_data) \<le> 50
            \<and> validate_bot_name (bc_name bot_data)
            \<and> (truthy (bc_start_cmd bot_data)
                 \<longrightarrow> validate_start_command (the (bc_start_cmd bot_data)))
            \<and> find_plan (bc_plan_id bot_data) s = Some q
            \<and> max_bots q \<le> user_bot_count uid s
            \<longrightarrow> create_bot bot_data uid s
                = (Inl (ConflictException (''Bot limit reached. Your plan allows maximum ''
                     @ str_int (max_bots q) @ '' bots.'')), s))"
proof -
  have quota: "quota_ok (plans s) (rev (bots s))"
    using reachable_invariant [OF assms] by (simp add: invariant_def)
  have cnt: "int (length (filter (\<lambda>x. user_id x = uid) (rev (bots s)))) = user_bot_count uid s"
    unfolding user_bot_count_def by (simp only: rev_filter [symmetric] length_rev)
  have newest: "\<exists>p. find_plan (plan_id b) s = Some p \<and> user_bot_count uid s \<le> max_bots p"
    if "newest_bot uid s = Some b" for b
    using quota_ok_newest [OF quota, of uid b] that cnt
    by (simp add: newest_bot_def find_plan_def)
  have one_plan: "user_bot_count uid s \<le> max_bots p'"
    if all: "list_all (\<lambda>x. user_id x = uid \<longrightarrow> plan_id x = pid) (bots s)"
      and pos: "0 < user_bot_count uid s" and p': "find_plan pid s = Some p'"
  proof -
    have "filter (\<lambda>x. user_id x = uid) (rev (bots s)) \<noteq> []"
      using pos cnt by auto
    then obtain x where "x \<in> set (rev (bots s))" and "user_id x = uid"
      by (auto simp: filter_empty_conv)
    then obtain b0 where f: "find (\<lambda>b. user_id b = uid) (rev (bots s)) = Some b0"
      by (cases "find (\<lambda>b. user_id b = uid) (rev (bots s))") (auto simp: find_None_iff)
    then have "b0 \<in> set (bots s)" and "user_id b0 = uid"
      using find_SomeD [of "\<lambda>b. user_id b = uid" "rev (bots s)" b0] by simp_all
    then have "plan_id b0 = pid"
      using all by (simp add: list_all_iff)
    then show ?thesis
      using newest [of b0] f p' by (simp add: newest_bot_def)
  qed
  show ?thesis
    using newest one_plan by (auto simp: create_bot_def)
qed

theorem quota_of_requested_plan_witness:
  "reachable two_bots_state
   \<and> map_option bot_name (newest_bot 1 two_bots_state) = Some ''second''
   \<and> map_option plan_id (newest_bot 1 two_bots_state) = Some 2
   \<and> map_option max_bots (find_plan 2 two_bots_state) = Some 3
   \<and> user_bot_count 1 two_bots_state \<le> 3
   \<and> validate_bot_name ''third''
   \<and> map_option max_bots (find_plan 1 two_bots_state) = Some 1
   \<and> 1 \<le> user_bot_count 1 two_bots_state
   \<and> create_bot third_bot 1 two_bots_state
       = (Inl (ConflictException ''Bot limit reached. Your plan allows maximum 1 bots.''),
          two_bots_state)"
proof -
  let ?b = "\<lparr>bot_id = 2, user_id = 1, plan_id = 2, runtime = NODE, bot_name = ''second'',
       container_id = None, status = CREATED, start_cmd = None, source_type = None\<rparr>"
  have n: "newest_bot 1 two_bots_state = Some ?b"
    by (simp add: newest_bot_def two_bots_state_bots)
  have p2: "find_plan 2 two_bots_state = Some (default_plans ! 1)"
    and p1: "find_plan 1 two_bots_state = Some (default_plans ! 0)"
    by (simp_all add: find_plan_def two_bots_state_bots default_plans_def)
  have c: "user_bot_count 1 two_bots_state = 2"
    by (simp add: user_bot_count_def two_bots_state_bots)
  have v: "validate_bot_name ''third''"
    by (simp add: utils_defs char_defs)
  have m: "max_bots (default_plans ! 1) = 3" "max_bots (default_plans ! 0) = 1"
    by (simp_all add: default_plans_def)
  show ?thesis
    using quota_of_requested_plan [OF reachable_two_bots_state, of 1 ?b 0 "default_plans ! 1"
        third_bot "default_plans ! 0"]
      reachable_two_bots_state n p1 p2 c v m
    by (simp add: third_bot_def digit_chars_def str_int_def)
qed

text \<open>User 1 holds a bot under the plan Free, which allows one bot, and owns two.\<close>

theorem two_bots_under_free_plan:
  "reachable two_bots_state
   \<and> map user_id (bots two_bots_state) = [1, 1]
   \<and> map plan_id (bots two_bots_state) = [1, 2]
   \<and> user_bot_count 1 two_bots_state = 2
   \<and> map_option max_bots (find_plan 1 two_bots_state) = Some 1"
  using reachable_two_bots_state
  by (simp add: two_bots_state_bots user_bot_count_def find_plan_def default_plans_def)


end
